theory Spec2Isabelle
  imports Main "HOL-Library.Word"
begin

text \<open>
  A shallow embedding of the ratings plugin (plugins/odrs/gs-plugin-odrs.c) and of the
  firmware plugin (plugins/fwupd/gs-plugin-fwupd.c) of the software centre, and the proofs
  of ten properties of them.

  Every C function is a HOL function of the same name. A \<^verbatim>\<open>gboolean\<close> result with a
  \<^verbatim>\<open>GError **\<close> is the error that is set: \<open>None\<close> is TRUE. A pointer that may be NULL is
  an option. What a function changes (the plugin data, the application, the operations it
  performs on the network, the files and the fwupd client) is passed in and returned. What
  the world answers (files, server, client) is read from an environment record. Mutexes,
  cancellables, debug output and the texts of error messages are left out: no function
  below branches on them.
\<close>


section \<open>The bundled binary search of the ratings plugin\<close>

text \<open>
  \<^verbatim>\<open>g_array_binary_search\<close> (plugins/odrs/gs-plugin-odrs.c, the fallback for GLib older
  than 2.62). The array is the \<^verbatim>\<open>GRealArray\<close> of the source reduced to the three fields
  the search reads: the element block, the element count and the element size, both
  \<^verbatim>\<open>guint\<close>. The indices \<^verbatim>\<open>left\<close>, \<^verbatim>\<open>middle\<close> and \<^verbatim>\<open>right\<close> are 32-bit words,
  so every addition and subtraction wraps as in C. The comparison result is a \<^verbatim>\<open>gint\<close>, of
  which only the sign is used.
\<close>

type_synonym guint = "32 word"
type_synonym gint = int

record 'a GRealArray =
  data :: "'a list"
  len :: guint
  elt_size :: guint

datatype memory_fault = OutOfBounds | TornRead | NullDereference

text \<open>
  The source reads the element at the address \<^verbatim>\<open>data + elt_size * middle\<close>, and the
  product is a \<^verbatim>\<open>guint\<close>: it wraps at \<open>2 ^ 32\<close>. The block is a list of elements here, so
  the read is given the byte offset and finds the element that starts there. An offset
  inside an element would give a value pieced together from two elements, which a list of
  elements cannot express: it is the fault \<open>TornRead\<close>. An offset at or beyond the end of
  the block is the fault \<open>OutOfBounds\<close>. With elements of size zero every element starts
  at offset zero.
\<close>

definition element_at_offset :: "'a GRealArray \<Rightarrow> guint \<Rightarrow> memory_fault + 'a" where
  "element_at_offset arr offset =
     (if elt_size arr = 0 then
        (if offset = 0 \<and> 0 < len arr \<and> 0 < length (data arr) then Inr (data arr ! 0)
         else Inl OutOfBounds)
      else if unat offset mod unat (elt_size arr) \<noteq> 0 then Inl TornRead
      else
        (let k = unat offset div unat (elt_size arr) in
         if k < unat (len arr) \<and> k < length (data arr) then Inr (data arr ! k)
         else Inl OutOfBounds))"

text \<open>
  The loop. It is entered with \<^verbatim>\<open>right = len - 1\<close> and \<^verbatim>\<open>middle\<close> never exceeds
  \<^verbatim>\<open>right\<close>; an element number at or beyond \<^verbatim>\<open>len\<close> is no element of the array and is
  the fault \<open>OutOfBounds\<close> as well.
\<close>

function (sequential) bsearch_loop ::
  "('a \<Rightarrow> 'b \<Rightarrow> gint) \<Rightarrow> 'a GRealArray \<Rightarrow> 'b \<Rightarrow> guint \<Rightarrow> guint \<Rightarrow> memory_fault + guint option" where
  "bsearch_loop compare_func arr target left right =
     (if left \<le> right then
        (let middle = left + (right - left) div 2 in
         if \<not> middle < len arr then Inl OutOfBounds
         else
           (case element_at_offset arr (elt_size arr * middle) of
              Inl fault \<Rightarrow> Inl fault
            | Inr element \<Rightarrow>
                (let val = compare_func element target in
                 if val = 0 then Inr (Some middle)
                 else if val < 0 then bsearch_loop compare_func arr target (middle + 1) right
                 else if middle > 0 then bsearch_loop compare_func arr target left (middle - 1)
                 else Inr None)))
      else Inr None)"
  by pat_completeness auto

termination
proof (relation "measure (\<lambda>(c, a, t, left, right). unat right + 1 - unat left)", goal_cases)
  case 1
  then show ?case by simp
next
  case (2 compare_func arr target left right middle element val)
  then have le: "unat left \<le> unat right" by (simp add: word_le_nat_alt)
  from 2 have "unat (right - left) = unat right - unat left" by (simp add: unat_sub)
  then have d: "unat ((right - left) div 2) = (unat right - unat left) div 2"
    by (simp add: unat_div)
  have "unat right < 2 ^ LENGTH(32)" by (rule unsigned_less)
  with le d have "unat left + unat ((right - left) div 2) < 2 ^ LENGTH(32)" by simp
  with 2 d have m: "unat middle = unat left + (unat right - unat left) div 2"
    by (simp add: unat_add_lem [THEN iffD1])
  from 2 have "unat middle < unat (len arr)" by (simp add: word_less_nat_alt)
  moreover have "unat (len arr) < 2 ^ LENGTH(32)" by (rule unsigned_less)
  ultimately have "unat middle + unat (1::guint) < 2 ^ LENGTH(32)" by simp
  then have "unat (middle + 1) = unat middle + 1" by (simp add: unat_add_lem [THEN iffD1])
  with le m show ?case by simp
next
  case (3 compare_func arr target left right middle element val)
  then have le: "unat left \<le> unat right" by (simp add: word_le_nat_alt)
  from 3 have "unat (right - left) = unat right - unat left" by (simp add: unat_sub)
  then have d: "unat ((right - left) div 2) = (unat right - unat left) div 2"
    by (simp add: unat_div)
  have "unat right < 2 ^ LENGTH(32)" by (rule unsigned_less)
  with le d have "unat left + unat ((right - left) div 2) < 2 ^ LENGTH(32)" by simp
  with 3 d have m: "unat middle = unat left + (unat right - unat left) div 2"
    by (simp add: unat_add_lem [THEN iffD1])
  from 3 have pos: "0 < unat middle" by (simp add: word_less_nat_alt)
  from 3 have "unat (middle - 1) = unat middle - 1"
    by (simp add: unat_sub word_le_nat_alt word_less_nat_alt)
  with le m pos show ?case by simp
qed

text \<open>
  The function itself: the two argument checks (\<^verbatim>\<open>g_return_val_if_fail\<close>; a NULL array is
  \<open>None\<close>, a comparison function cannot be NULL here), the guard on an empty array, the
  loop, and the write of \<^verbatim>\<open>*out_match_index\<close>, which happens only on a match: the second
  component of the result is the index written.
\<close>

definition g_array_binary_search ::
  "'a GRealArray option \<Rightarrow> 'b \<Rightarrow> ('a \<Rightarrow> 'b \<Rightarrow> gint) \<Rightarrow> memory_fault + (bool \<times> guint option)" where
  "g_array_binary_search array target compare_func =
     (case array of
        None \<Rightarrow> Inr (False, None)
      | Some arr \<Rightarrow>
          if len arr \<noteq> 0 then
            (case bsearch_loop compare_func arr target 0 (len arr - 1) of
               Inl fault \<Rightarrow> Inl fault
             | Inr None \<Rightarrow> Inr (False, None)
             | Inr (Some middle) \<Rightarrow> Inr (True, Some middle))
          else Inr (False, None))"

section \<open>Errors, reviews and application records\<close>

text \<open>
  A \<^verbatim>\<open>GError\<close> is a domain and a code; messages are not modelled, since no decision in the
  plugins reads them. Errors of the plugin domain carry a \<^verbatim>\<open>GsPluginError\<close> code, errors of
  the fwupd client a \<^verbatim>\<open>FwupdError\<close> code, and any other error its domain name and raw code.
  The two enumerations are declared outside the plugins; the constructors are the codes the
  plugins name, and \<open>FWUPD_ERROR_OTHER\<close> stands for every fwupd code they do not name.
\<close>

datatype GsPluginError =
    GS_PLUGIN_ERROR_FAILED
  | GS_PLUGIN_ERROR_NOT_SUPPORTED
  | GS_PLUGIN_ERROR_CANCELLED
  | GS_PLUGIN_ERROR_NO_NETWORK
  | GS_PLUGIN_ERROR_NO_SECURITY
  | GS_PLUGIN_ERROR_AUTH_INVALID
  | GS_PLUGIN_ERROR_DOWNLOAD_FAILED
  | GS_PLUGIN_ERROR_WRITE_FAILED
  | GS_PLUGIN_ERROR_INVALID_FORMAT
  | GS_PLUGIN_ERROR_AC_POWER_REQUIRED
  | GS_PLUGIN_ERROR_BATTERY_LEVEL_TOO_LOW

datatype FwupdError =
    FWUPD_ERROR_ALREADY_PENDING
  | FWUPD_ERROR_INVALID_FILE
  | FWUPD_ERROR_NOT_SUPPORTED
  | FWUPD_ERROR_AUTH_FAILED
  | FWUPD_ERROR_SIGNATURE_INVALID
  | FWUPD_ERROR_AC_POWER_REQUIRED
  | FWUPD_ERROR_BATTERY_LEVEL_TOO_LOW
  | FWUPD_ERROR_NOTHING_TO_DO
  | FWUPD_ERROR_NOT_FOUND
  | FWUPD_ERROR_OTHER nat

datatype GError =
    PluginError GsPluginError
  | FwupdClientError FwupdError
  | ForeignError string int

datatype GQuark = GS_PLUGIN_ERROR | FWUPD_ERROR | OTHER_DOMAIN string

fun error_domain :: "GError \<Rightarrow> GQuark" where
  "error_domain (PluginError c) = GS_PLUGIN_ERROR"
| "error_domain (FwupdClientError c) = FWUPD_ERROR"
| "error_domain (ForeignError d c) = OTHER_DOMAIN d"

text \<open>
  Modelled from the spec: the error taxonomy of section 7, which the plugins do not declare.
  It lists NO_NETWORK, INVALID_FORMAT, NOT_SUPPORTED, AUTH_FAILED, NO_SECURITY, CANCELLED,
  DOWNLOAD_FAILED, WRITE_FAILED and FAILED; its AUTH_FAILED is read as the code's
  \<^verbatim>\<open>GS_PLUGIN_ERROR_AUTH_INVALID\<close>.
\<close>

definition spec_taxonomy :: "GsPluginError set" where
  "spec_taxonomy =
     {GS_PLUGIN_ERROR_NO_NETWORK, GS_PLUGIN_ERROR_INVALID_FORMAT, GS_PLUGIN_ERROR_NOT_SUPPORTED,
      GS_PLUGIN_ERROR_AUTH_INVALID, GS_PLUGIN_ERROR_NO_SECURITY, GS_PLUGIN_ERROR_CANCELLED,
      GS_PLUGIN_ERROR_DOWNLOAD_FAILED, GS_PLUGIN_ERROR_WRITE_FAILED, GS_PLUGIN_ERROR_FAILED}"

text \<open>
  \<^verbatim>\<open>g_strcmp0\<close>: NULL-safe \<^verbatim>\<open>strcmp\<close>. NULL orders before every string; two strings are
  compared byte by byte as unsigned values. Only the sign of the result is ever used.
\<close>

fun strcmp :: "string \<Rightarrow> string \<Rightarrow> gint" where
  "strcmp [] [] = 0"
| "strcmp [] (b # bs) = - 1"
| "strcmp (a # as) [] = 1"
| "strcmp (a # as) (b # bs) =
     (if a = b then strcmp as bs
      else if (of_char a :: nat) < of_char b then - 1 else 1)"

fun g_strcmp0 :: "string option \<Rightarrow> string option \<Rightarrow> gint" where
  "g_strcmp0 None None = 0"
| "g_strcmp0 None (Some b) = - 1"
| "g_strcmp0 (Some a) None = 1"
| "g_strcmp0 (Some a) (Some b) = strcmp a b"

text \<open>The decimal rendering of an integer, as \<^verbatim>\<open>printf\<close> writes it.\<close>

fun show_nat :: "nat \<Rightarrow> string" where
  "show_nat n =
     (if n < 10 then [char_of (48 + n)]
      else show_nat (n div 10) @ [char_of (48 + n mod 10)])"

definition show_int :: "int \<Rightarrow> string" where
  "show_int i = (if i < 0 then CHR ''-'' # show_nat (nat (- i)) else show_nat (nat i))"

text \<open>
  An AppStream review. The metadata table is an association list with one entry per key;
  adding a key whose value is NULL leaves the key without a value.
\<close>

datatype AsReviewFlag = AS_REVIEW_FLAG_SELF | AS_REVIEW_FLAG_VOTED

record AsReview =
  review_date :: "int option"
  review_rating :: gint
  review_priority :: gint
  review_reviewer_id :: "string option"
  review_reviewer_name :: "string option"
  review_summary :: "string option"
  review_description :: "string option"
  review_version :: "string option"
  review_id :: "string option"
  review_flags :: "AsReviewFlag set"
  review_metadata :: "(string \<times> string) list"

definition as_review_new :: AsReview where
  "as_review_new =
     \<lparr>review_date = None, review_rating = 0, review_priority = 0, review_reviewer_id = None,
      review_reviewer_name = None, review_summary = None, review_description = None,
      review_version = None, review_id = None, review_flags = {}, review_metadata = []\<rparr>"

definition as_review_get_metadata_item :: "AsReview \<Rightarrow> string \<Rightarrow> string option" where
  "as_review_get_metadata_item review key = map_of (review_metadata review) key"

definition as_review_add_metadata :: "AsReview \<Rightarrow> string \<Rightarrow> string option \<Rightarrow> AsReview" where
  "as_review_add_metadata review key val =
     review\<lparr>review_metadata :=
       (case val of None \<Rightarrow> [] | Some v \<Rightarrow> [(key, v)]) @
       filter (\<lambda>kv. fst kv \<noteq> key) (review_metadata review)\<rparr>"

text \<open>
  Modelled from the spec: the application record \<^verbatim>\<open>GsApp\<close> and its accessors, which are
  declared outside the plugins. Section 3 makes an entity a set of independently settable
  attributes; the record holds the attributes the two plugins read or write, and an accessor
  is a plain field read or write. The state with its recovery value and the insertion into a
  list follow further below.
\<close>

datatype AsComponentKind =
    AS_COMPONENT_KIND_UNKNOWN
  | AS_COMPONENT_KIND_DESKTOP_APP
  | AS_COMPONENT_KIND_ADDON
  | AS_COMPONENT_KIND_FIRMWARE
  | AS_COMPONENT_KIND_REPOSITORY

datatype AsComponentScope =
  AS_COMPONENT_SCOPE_UNKNOWN | AS_COMPONENT_SCOPE_SYSTEM | AS_COMPONENT_SCOPE_USER

datatype AsBundleKind = AS_BUNDLE_KIND_UNKNOWN | AS_BUNDLE_KIND_PACKAGE | AS_BUNDLE_KIND_CABINET

datatype GsAppState =
    GS_APP_STATE_UNKNOWN
  | GS_APP_STATE_INSTALLED
  | GS_APP_STATE_AVAILABLE
  | GS_APP_STATE_QUEUED_FOR_INSTALL
  | GS_APP_STATE_INSTALLING
  | GS_APP_STATE_REMOVING
  | GS_APP_STATE_UPDATABLE
  | GS_APP_STATE_UPDATABLE_LIVE

datatype GsAppQuirk =
    GS_APP_QUIRK_NOT_LAUNCHABLE
  | GS_APP_QUIRK_DO_NOT_AUTO_UPDATE
  | GS_APP_QUIRK_NEEDS_USER_ACTION

datatype AsProvidedKind = AS_PROVIDED_KIND_ID | AS_PROVIDED_KIND_BINARY

record AsProvided =
  provided_kind :: AsProvidedKind
  provided_items :: "string option list"

record GsApp =
  app_id :: "string option"
  app_scope :: AsComponentScope
  app_bundle_kind :: AsBundleKind
  app_origin :: "string option"
  app_branch :: "string option"
  app_kind :: AsComponentKind
  app_state :: GsAppState
  app_state_recover :: GsAppState
  app_management_plugin :: "string option"
  app_name :: "string option"
  app_summary :: "string option"
  app_description :: "string option"
  app_version :: "string option"
  app_update_version :: "string option"
  app_provided :: "AsProvided list"
  app_reviews :: "AsReview list"
  app_review_ratings :: "guint list option"
  app_rating :: gint
  app_metadata :: "(string \<times> string) list"
  app_local_file :: "string option"
  app_update_uri :: "string option"
  app_device_id :: "string option"
  app_size_download :: "nat option"
  app_action_screenshot :: "(string option \<times> string) option"
  app_categories :: "string list"
  app_icons :: "string list"
  app_quirks :: "GsAppQuirk set"

definition gs_app_new :: "string option \<Rightarrow> GsApp" where
  "gs_app_new ident =
     \<lparr>app_id = ident, app_scope = AS_COMPONENT_SCOPE_UNKNOWN,
      app_bundle_kind = AS_BUNDLE_KIND_UNKNOWN, app_origin = None, app_branch = None,
      app_kind = AS_COMPONENT_KIND_UNKNOWN, app_state = GS_APP_STATE_UNKNOWN,
      app_state_recover = GS_APP_STATE_UNKNOWN, app_management_plugin = None,
      app_name = None, app_summary = None, app_description = None, app_version = None,
      app_update_version = None, app_provided = [], app_reviews = [],
      app_review_ratings = None, app_rating = - 1, app_metadata = [],
      app_local_file = None, app_update_uri = None, app_device_id = None,
      app_size_download = None, app_action_screenshot = None, app_categories = [],
      app_icons = [], app_quirks = {}\<rparr>"

definition gs_app_get_metadata_item :: "GsApp \<Rightarrow> string \<Rightarrow> string option" where
  "gs_app_get_metadata_item app key = map_of (app_metadata app) key"

definition gs_app_set_metadata :: "GsApp \<Rightarrow> string \<Rightarrow> string option \<Rightarrow> GsApp" where
  "gs_app_set_metadata app key val =
     app\<lparr>app_metadata :=
       (case val of None \<Rightarrow> [] | Some v \<Rightarrow> [(key, v)]) @
       filter (\<lambda>kv. fst kv \<noteq> key) (app_metadata app)\<rparr>"

definition gs_app_add_review :: "GsApp \<Rightarrow> AsReview \<Rightarrow> GsApp" where
  "gs_app_add_review app review = app\<lparr>app_reviews := app_reviews app @ [review]\<rparr>"

text \<open>
  Modelled from the spec: \<^verbatim>\<open>gs_app_set_state\<close> and \<^verbatim>\<open>gs_app_set_state_recover\<close>, which
  the plugins call but do not define. The state is one of the enumeration of section 3. The
  states INSTALLING, REMOVING and QUEUED are transient: entering one keeps the last settled
  state as the recovery value, entering any other state makes it the recovery value, and
  recovering puts the recovery value back.
\<close>

definition gs_app_set_state :: "GsApp \<Rightarrow> GsAppState \<Rightarrow> GsApp" where
  "gs_app_set_state app s =
     (if s \<in> {GS_APP_STATE_INSTALLING, GS_APP_STATE_REMOVING, GS_APP_STATE_QUEUED_FOR_INSTALL}
      then app\<lparr>app_state := s\<rparr>
      else app\<lparr>app_state := s, app_state_recover := s\<rparr>)"

definition gs_app_set_state_recover :: "GsApp \<Rightarrow> GsApp" where
  "gs_app_set_state_recover app = app\<lparr>app_state := app_state_recover app\<rparr>"

text \<open>
  Modelled from the spec: the identity key of section 3 (scope, bundle kind, origin, id,
  version class) and \<^verbatim>\<open>gs_app_list_add\<close>, which inserts an application into a list unless
  the list already holds one with the same identity key. Applications are shared objects:
  a list holds addresses into a store of records.
\<close>

type_synonym app_ptr = nat

definition identity_key ::
  "GsApp \<Rightarrow> AsComponentScope \<times> AsBundleKind \<times> string option \<times> string option \<times> string option" where
  "identity_key app = (app_scope app, app_bundle_kind app, app_origin app, app_id app, app_branch app)"

definition gs_app_list_add :: "GsApp list \<Rightarrow> app_ptr list \<Rightarrow> app_ptr \<Rightarrow> app_ptr list" where
  "gs_app_list_add store list app =
     (if list_ex (\<lambda>q. identity_key (store ! q) = identity_key (store ! app)) list
      then list else list @ [app])"


section \<open>The ratings plugin (plugins/odrs/gs-plugin-odrs.c)\<close>

subsection \<open>JSON trees, the environment and the plugin state\<close>

text \<open>
  The plugin reads JSON through json-glib. The model starts from the parsed tree: an object
  is the list of its members in iteration order. The member readers return the neutral value
  (0, FALSE, NULL) when the member is missing or of another type, as json-glib does.
\<close>

datatype JsonNode =
    JsonNull
  | JsonBool bool
  | JsonInt int
  | JsonString string
  | JsonArray "JsonNode list"
  | JsonObject "(string \<times> JsonNode) list"

definition json_object_has_member :: "(string \<times> JsonNode) list \<Rightarrow> string \<Rightarrow> bool" where
  "json_object_has_member obj name = (map_of obj name \<noteq> None)"

definition json_object_get_int_member :: "(string \<times> JsonNode) list \<Rightarrow> string \<Rightarrow> int" where
  "json_object_get_int_member obj name =
     (case map_of obj name of
        Some (JsonInt i) \<Rightarrow> i
      | Some (JsonBool b) \<Rightarrow> (if b then 1 else 0)
      | _ \<Rightarrow> 0)"

definition json_object_get_string_member :: "(string \<times> JsonNode) list \<Rightarrow> string \<Rightarrow> string option" where
  "json_object_get_string_member obj name =
     (case map_of obj name of Some (JsonString s) \<Rightarrow> Some s | _ \<Rightarrow> None)"

definition json_object_get_boolean_member :: "(string \<times> JsonNode) list \<Rightarrow> string \<Rightarrow> bool" where
  "json_object_get_boolean_member obj name =
     (case map_of obj name of
        Some (JsonBool b) \<Rightarrow> b
      | Some (JsonInt i) \<Rightarrow> i \<noteq> 0
      | _ \<Rightarrow> False)"

definition json_string_value :: "string option \<Rightarrow> JsonNode" where
  "json_string_value s = (case s of None \<Rightarrow> JsonNull | Some v \<Rightarrow> JsonString v)"

text \<open>The casts \<^verbatim>\<open>(gint)\<close> and \<^verbatim>\<open>(guint32)\<close> of a 64-bit JSON integer.\<close>

definition gint_of_gint64 :: "int \<Rightarrow> gint" where
  "gint_of_gint64 i = sint (word_of_int i :: 32 word)"

definition guint32_of_gint64 :: "int \<Rightarrow> guint" where
  "guint32_of_gint64 i = word_of_int i"

text \<open>
  Everything outside the plugin is an environment of answers: the cache directory, file ages
  and contents, the JSON parser, the HTTP session, the downloader, and the two numeric
  helpers that work in floating point (the Wilson rating of a histogram and the Wilson score
  of a karma pair). An HTTP request carries its JSON payload as a tree; turning the tree
  into text cannot fail, so the two \<^verbatim>\<open>data == NULL\<close> returns after
  \<^verbatim>\<open>json_generator_to_data\<close> have no counterpart.
\<close>

datatype http_request = HTTP_POST string JsonNode | HTTP_GET string

record odrs_env =
  network_available :: bool
  interactive :: bool
  plugin_locale :: string
  real_name :: string
  get_cache_filename :: "string \<Rightarrow> GError + string"
  get_file_age :: "string \<Rightarrow> guint"
  mapped_file_new :: "string \<Rightarrow> GError + string option"
  json_load_from_data :: "string \<Rightarrow> GError + JsonNode option"
  json_load_from_file :: "string \<Rightarrow> GError + JsonNode option"
  error_convert_json_glib :: "GError \<Rightarrow> GError"
  soup_session_send_message :: "http_request \<Rightarrow> guint \<times> string option"
  download_file :: "string \<Rightarrow> string \<Rightarrow> GError option"
  file_set_contents :: "string \<Rightarrow> string option \<Rightarrow> GError option"
  file_query_exists :: "string \<Rightarrow> bool"
  file_delete :: "string \<Rightarrow> GError option"
  get_wilson_rating :: "guint \<Rightarrow> guint \<Rightarrow> guint \<Rightarrow> guint \<Rightarrow> guint \<Rightarrow> gint"
  karma_priority :: "int \<Rightarrow> int \<Rightarrow> gint"

text \<open>
  The plugin state is \<^verbatim>\<open>GsPluginData\<close> together with what the plugin has done to the world:
  the log of network and file operations, in order, and the events it has reported. A
  function that returns the state it was given has performed no operation.
\<close>

record GsOdrsRating =
  rating_app_id :: "string option"
  n_star_ratings :: "guint list"

text \<open>
  \<^verbatim>\<open>sizeof (GsOdrsRating)\<close>, a pointer and six 32-bit counters, where pointers have 64
  bits.
\<close>

definition sizeof_GsOdrsRating :: guint where
  "sizeof_GsOdrsRating = 32"

definition rating_compare :: "GsOdrsRating \<Rightarrow> GsOdrsRating \<Rightarrow> gint" where
  "rating_compare a b = g_strcmp0 (rating_app_id a) (rating_app_id b)"

datatype io_op =
    NETWORK_SEND http_request
  | NETWORK_DOWNLOAD string string
  | FILE_READ string
  | FILE_WRITE string
  | FILE_DELETE string

datatype GsPluginAction = GS_PLUGIN_ACTION_DOWNLOAD

datatype GsPluginEventFlag = GS_PLUGIN_EVENT_FLAG_INTERACTIVE | GS_PLUGIN_EVENT_FLAG_WARNING

record GsPluginEvent =
  event_error :: GError
  event_action :: GsPluginAction
  event_flags :: "GsPluginEventFlag set"

record odrs_state =
  review_server :: "string option"
  user_hash :: "string option"
  distro :: "string option"
  ratings :: "GsOdrsRating GRealArray option"
  io_log :: "io_op list"
  events :: "GsPluginEvent list"

definition server_disabled :: "odrs_state \<Rightarrow> bool" where
  "server_disabled st = (review_server st = None \<or> review_server st = Some [])"

definition server_uri :: "odrs_state \<Rightarrow> string" where
  "server_uri st = (case review_server st of None \<Rightarrow> [] | Some s \<Rightarrow> s)"

definition do_io :: "odrs_state \<Rightarrow> io_op \<Rightarrow> odrs_state" where
  "do_io st op = st\<lparr>io_log := io_log st @ [op]\<rparr>"

definition ODRS_REVIEW_CACHE_AGE_MAX :: guint where
  "ODRS_REVIEW_CACHE_AGE_MAX = 237000"

definition ODRS_REVIEW_NUMBER_RESULTS_MAX :: int where
  "ODRS_REVIEW_NUMBER_RESULTS_MAX = 20"

definition SOUP_STATUS_OK :: guint where
  "SOUP_STATUS_OK = 200"

subsection \<open>Loading the ratings snapshot\<close>

definition star_names :: "string list" where
  "star_names = [''star0'', ''star1'', ''star2'', ''star3'', ''star4'', ''star5'']"

definition gs_plugin_odrs_load_ratings_for_app ::
  "(string \<times> JsonNode) list \<Rightarrow> string \<Rightarrow> GsOdrsRating option" where
  "gs_plugin_odrs_load_ratings_for_app json_app ident =
     (if list_all (json_object_has_member json_app) star_names
      then Some \<lparr>rating_app_id = Some ident,
                 n_star_ratings =
                   map (\<lambda>n. guint32_of_gint64 (json_object_get_int_member json_app n)) star_names\<rparr>
      else None)"

text \<open>
  \<^verbatim>\<open>g_array_sort\<close> is GLib's; any sorting procedure returns the elements in ascending order
  of the comparison function, and insertion sort stands for it.
\<close>

fun insert_sorted :: "('a \<Rightarrow> 'a \<Rightarrow> gint) \<Rightarrow> 'a \<Rightarrow> 'a list \<Rightarrow> 'a list" where
  "insert_sorted cmp x [] = [x]"
| "insert_sorted cmp x (y # ys) =
     (if cmp x y \<le> 0 then x # y # ys else y # insert_sorted cmp x ys)"

definition g_array_sort :: "'a list \<Rightarrow> ('a \<Rightarrow> 'a \<Rightarrow> gint) \<Rightarrow> 'a list" where
  "g_array_sort xs cmp = foldr (insert_sorted cmp) xs []"

fun parse_each_app :: "(string \<times> JsonNode) list \<Rightarrow> GsOdrsRating list" where
  "parse_each_app [] = []"
| "parse_each_app ((ident, JsonObject json_app) # rest) =
     (case gs_plugin_odrs_load_ratings_for_app json_app ident of
        Some rating \<Rightarrow> rating # parse_each_app rest
      | None \<Rightarrow> parse_each_app rest)"
| "parse_each_app ((ident, node) # rest) = parse_each_app rest"

text \<open>
  \<^verbatim>\<open>gs_plugin_odrs_load_ratings\<close>: TRUE is \<open>None\<close>, FALSE is the error set. The element
  count of the new array is a \<^verbatim>\<open>guint\<close>, its element size that of a \<^verbatim>\<open>GsOdrsRating\<close>.
\<close>

definition gs_plugin_odrs_load_ratings ::
  "odrs_env \<Rightarrow> odrs_state \<Rightarrow> string \<Rightarrow> GError option \<times> odrs_state" where
  "gs_plugin_odrs_load_ratings env st fn =
     (let st1 = do_io st (FILE_READ fn) in
      case json_load_from_file env fn of
        Inl e \<Rightarrow> (Some (error_convert_json_glib env e), st1)
      | Inr None \<Rightarrow> (Some (PluginError GS_PLUGIN_ERROR_INVALID_FORMAT), st1)
      | Inr (Some (JsonObject json_item)) \<Rightarrow>
          (let new_ratings = g_array_sort (parse_each_app json_item) rating_compare in
           (None, st1\<lparr>ratings := Some \<lparr>data = new_ratings, len = of_nat (length new_ratings),
                                          elt_size = sizeof_GsOdrsRating\<rparr>\<rparr>))
      | Inr (Some node) \<Rightarrow> (Some (PluginError GS_PLUGIN_ERROR_INVALID_FORMAT), st1))"

subsection \<open>Refreshing the snapshot\<close>

definition gs_plugin_refresh ::
  "odrs_env \<Rightarrow> odrs_state \<Rightarrow> guint \<Rightarrow> GError option \<times> odrs_state" where
  "gs_plugin_refresh env st cache_age =
     (if server_disabled st then (None, st)
      else
        (let uri = server_uri st @ ''/ratings'' in
         case get_cache_filename env ''ratings.json'' of
           Inl e \<Rightarrow> (Some e, st)
         | Inr cache_filename \<Rightarrow>
             if cache_age > 0 \<and> get_file_age env cache_filename < cache_age
             then gs_plugin_odrs_load_ratings env st cache_filename
             else
               (let st1 = do_io st (NETWORK_DOWNLOAD uri cache_filename) in
                case download_file env uri cache_filename of
                  Some error_local \<Rightarrow>
                    (None,
                     st1\<lparr>events := events st1 @
                       [\<lparr>event_error = error_local, event_action = GS_PLUGIN_ACTION_DOWNLOAD,
                         event_flags =
                           (if interactive env then {GS_PLUGIN_EVENT_FLAG_INTERACTIVE}
                            else {GS_PLUGIN_EVENT_FLAG_WARNING})\<rparr>]\<rparr>)
                | None \<Rightarrow> gs_plugin_odrs_load_ratings env st1 cache_filename)))"

subsection \<open>Parsing reviews\<close>

definition gs_plugin_odrs_parse_review_object :: "odrs_env \<Rightarrow> (string \<times> JsonNode) list \<Rightarrow> AsReview" where
  "gs_plugin_odrs_parse_review_object env item =
     (let review = as_review_new;
          review = (if json_object_has_member item ''date_created''
                 then review\<lparr>review_date := Some (json_object_get_int_member item ''date_created'')\<rparr>
                 else review);
          review = (if json_object_has_member item ''rating''
                 then review\<lparr>review_rating := gint_of_gint64 (json_object_get_int_member item ''rating'')\<rparr>
                 else review);
          review = (if json_object_has_member item ''score''
                 then review\<lparr>review_priority := gint_of_gint64 (json_object_get_int_member item ''score'')\<rparr>
                 else if json_object_has_member item ''karma_up'' \<and>
                         json_object_has_member item ''karma_down''
                 then review\<lparr>review_priority :=
                        karma_priority env (json_object_get_int_member item ''karma_up'')
                                           (json_object_get_int_member item ''karma_down'')\<rparr>
                 else review);
          review = (if json_object_has_member item ''user_hash''
                 then review\<lparr>review_reviewer_id := json_object_get_string_member item ''user_hash''\<rparr>
                 else review);
          review = (if json_object_has_member item ''user_display''
                 then review\<lparr>review_reviewer_name := json_object_get_string_member item ''user_display''\<rparr>
                 else review);
          review = (if json_object_has_member item ''summary''
                 then review\<lparr>review_summary := json_object_get_string_member item ''summary''\<rparr>
                 else review);
          review = (if json_object_has_member item ''description''
                 then review\<lparr>review_description := json_object_get_string_member item ''description''\<rparr>
                 else review);
          review = (if json_object_has_member item ''version''
                 then review\<lparr>review_version := json_object_get_string_member item ''version''\<rparr>
                 else review);
          review = (if json_object_has_member item ''user_skey''
                 then as_review_add_metadata review ''user_skey''
                        (json_object_get_string_member item ''user_skey'')
                 else review);
          review = (if json_object_has_member item ''app_id''
                 then as_review_add_metadata review ''app_id''
                        (json_object_get_string_member item ''app_id'')
                 else review);
          review = (if json_object_has_member item ''review_id''
                 then review\<lparr>review_id := Some (show_int (json_object_get_int_member item ''review_id''))\<rparr>
                 else review);
          review = (if json_object_has_member item ''vote_id''
                 then review\<lparr>review_flags := insert AS_REVIEW_FLAG_VOTED (review_flags review)\<rparr>
                 else review)
      in review)"

text \<open>
  \<^verbatim>\<open>gs_plugin_odrs_parse_reviews\<close>. The loop keeps the reviewer ids seen so far and the
  reviews kept so far; a review without reviewer id, or with one already seen, is skipped.
\<close>

fun parse_each_review ::
  "odrs_env \<Rightarrow> JsonNode list \<Rightarrow> string list \<Rightarrow> AsReview list \<Rightarrow> GError + AsReview list" where
  "parse_each_review env [] reviewer_ids reviews = Inr reviews"
| "parse_each_review env (JsonObject json_item # rest) reviewer_ids reviews =
     (let review = gs_plugin_odrs_parse_review_object env json_item in
      case review_reviewer_id review of
        None \<Rightarrow> parse_each_review env rest reviewer_ids reviews
      | Some reviewer_id \<Rightarrow>
          if reviewer_id \<in> set reviewer_ids
          then parse_each_review env rest reviewer_ids reviews
          else parse_each_review env rest (reviewer_id # reviewer_ids) (reviews @ [review]))"
| "parse_each_review env (json_review # rest) reviewer_ids reviews =
     Inl (PluginError GS_PLUGIN_ERROR_INVALID_FORMAT)"

definition gs_plugin_odrs_parse_reviews :: "odrs_env \<Rightarrow> string option \<Rightarrow> GError + AsReview list" where
  "gs_plugin_odrs_parse_reviews env text =
     (case text of
        None \<Rightarrow>
          if \<not> network_available env then Inl (PluginError GS_PLUGIN_ERROR_NO_NETWORK)
          else Inl (PluginError GS_PLUGIN_ERROR_INVALID_FORMAT)
      | Some d \<Rightarrow>
          (case json_load_from_data env d of
             Inl e \<Rightarrow> Inl (error_convert_json_glib env e)
           | Inr None \<Rightarrow> Inl (PluginError GS_PLUGIN_ERROR_INVALID_FORMAT)
           | Inr (Some (JsonArray json_reviews)) \<Rightarrow> parse_each_review env json_reviews [] []
           | Inr (Some node) \<Rightarrow> Inl (PluginError GS_PLUGIN_ERROR_INVALID_FORMAT)))"

definition gs_plugin_odrs_parse_success :: "odrs_env \<Rightarrow> string option \<Rightarrow> GError option" where
  "gs_plugin_odrs_parse_success env text =
     (case text of
        None \<Rightarrow>
          if \<not> network_available env then Some (PluginError GS_PLUGIN_ERROR_NO_NETWORK)
          else Some (PluginError GS_PLUGIN_ERROR_INVALID_FORMAT)
      | Some d \<Rightarrow>
          (case json_load_from_data env d of
             Inl e \<Rightarrow> Some (error_convert_json_glib env e)
           | Inr None \<Rightarrow> Some (PluginError GS_PLUGIN_ERROR_INVALID_FORMAT)
           | Inr (Some (JsonObject json_item)) \<Rightarrow>
               if \<not> json_object_get_boolean_member json_item ''success''
               then Some (PluginError GS_PLUGIN_ERROR_INVALID_FORMAT)
               else None
           | Inr (Some node) \<Rightarrow> Some (PluginError GS_PLUGIN_ERROR_INVALID_FORMAT)))"

definition gs_plugin_odrs_json_post ::
  "odrs_env \<Rightarrow> odrs_state \<Rightarrow> string \<Rightarrow> JsonNode \<Rightarrow> GError option \<times> odrs_state" where
  "gs_plugin_odrs_json_post env st uri payload =
     (let msg = HTTP_POST uri payload;
          st1 = do_io st (NETWORK_SEND msg);
          (status_code, response_body) = soup_session_send_message env msg
      in if status_code \<noteq> SOUP_STATUS_OK then (Some (PluginError GS_PLUGIN_ERROR_FAILED), st1)
         else (gs_plugin_odrs_parse_success env response_body, st1))"

subsection \<open>Refining ratings\<close>

definition gs_app_get_reviewable_ids :: "GsApp \<Rightarrow> string option list" where
  "gs_app_get_reviewable_ids app =
     app_id app #
     concat (map (\<lambda>prov. if provided_kind prov \<noteq> AS_PROVIDED_KIND_ID then []
                          else filter (\<lambda>v. v \<noteq> None) (provided_items prov))
                 (app_provided app))"

text \<open>
  The accumulation loop of \<^verbatim>\<open>gs_plugin_odrs_refine_ratings\<close>: for each reviewable id a
  binary search in the snapshot, and on a match the six counters are added, in 32-bit
  arithmetic, to the accumulator. The element of the match is read with \<^verbatim>\<open>g_array_index\<close>
  at the index the search wrote (an indexing of typed elements, not the 32-bit byte offset
  of the search); a read at or beyond the element count is the out-of-bounds fault. The search writes
  the index whenever it returns TRUE, so the case of TRUE without an index, which would read
  an uninitialised \<^verbatim>\<open>found_index\<close>, is never taken.
\<close>

fun accumulate_ratings ::
  "GsOdrsRating GRealArray \<Rightarrow> string option list \<Rightarrow> guint list \<Rightarrow> guint \<Rightarrow>
     memory_fault + (guint list \<times> guint)" where
  "accumulate_ratings arr [] ratings_raw cnt = Inr (ratings_raw, cnt)"
| "accumulate_ratings arr (ident # rest) ratings_raw cnt =
     (case g_array_binary_search (Some arr)
             \<lparr>rating_app_id = ident, n_star_ratings = [0, 0, 0, 0, 0, 0]\<rparr> rating_compare of
        Inl fault \<Rightarrow> Inl fault
      | Inr (False, found_index) \<Rightarrow> accumulate_ratings arr rest ratings_raw cnt
      | Inr (True, None) \<Rightarrow> Inl OutOfBounds
      | Inr (True, Some found_index) \<Rightarrow>
          if \<not> found_index < len arr \<or> \<not> unat found_index < length (data arr)
          then Inl OutOfBounds
          else
            (let found_rating = data arr ! unat found_index in
             accumulate_ratings arr rest
               (map (\<lambda>j. ratings_raw ! j + n_star_ratings found_rating ! j) [0 ..< 6])
               (cnt + 1)))"

text \<open>
  The first part of \<^verbatim>\<open>gs_plugin_odrs_refine_ratings\<close>: when no snapshot is loaded, load
  it from the cache file. \<open>Inl\<close> is the state at an early \<^verbatim>\<open>return TRUE\<close> (no cache file
  name, or loading failed; the load is called without an error location), \<open>Inr\<close> the
  state to go on with.
\<close>

definition load_ratings_if_missing :: "odrs_env \<Rightarrow> odrs_state \<Rightarrow> odrs_state + odrs_state" where
  "load_ratings_if_missing env st =
     (if ratings st = None then
        (case get_cache_filename env ''ratings.json'' of
           Inl e \<Rightarrow> Inl st
         | Inr cache_filename \<Rightarrow>
             (case gs_plugin_odrs_load_ratings env st cache_filename of
                (Some e, st') \<Rightarrow> Inl st'
              | (None, st') \<Rightarrow> if ratings st' = None then Inl st' else Inr st'))
      else Inr st)"

definition gs_plugin_odrs_refine_ratings ::
  "odrs_env \<Rightarrow> odrs_state \<Rightarrow> GsApp \<Rightarrow> memory_fault + (GError option \<times> odrs_state \<times> GsApp)" where
  "gs_plugin_odrs_refine_ratings env st app =
     (if server_disabled st then Inr (None, st, app)
      else
        (let reviewable_ids = gs_app_get_reviewable_ids app in
         case load_ratings_if_missing env st of
           Inl st' \<Rightarrow> Inr (None, st', app)
         | Inr st' \<Rightarrow>
             (case ratings st' of
                None \<Rightarrow> Inr (None, st', app)
              | Some arr \<Rightarrow>
                  (case accumulate_ratings arr reviewable_ids [0, 0, 0, 0, 0, 0] 0 of
                     Inl fault \<Rightarrow> Inl fault
                   | Inr (ratings_raw, cnt) \<Rightarrow>
                       if cnt = 0 then Inr (None, st', app)
                       else
                         (let review_ratings = ratings_raw;
                              app1 = app\<lparr>app_review_ratings := Some review_ratings\<rparr>;
                              rating = get_wilson_rating env (review_ratings ! 1)
                                         (review_ratings ! 2) (review_ratings ! 3)
                                         (review_ratings ! 4) (review_ratings ! 5)
                          in if rating > 0 then Inr (None, st', app1\<lparr>app_rating := rating\<rparr>)
                             else Inr (None, st', app1))))))"

subsection \<open>Fetching and refining reviews\<close>

fun add_new_ids :: "string list \<Rightarrow> string option list \<Rightarrow> string list" where
  "add_new_ids ids [] = ids"
| "add_new_ids ids (None # rest) = add_new_ids ids rest"
| "add_new_ids ids (Some v # rest) =
     (if v \<in> set ids then add_new_ids ids rest else add_new_ids (ids @ [v]) rest)"

definition gs_plugin_odrs_get_compat_ids :: "GsApp \<Rightarrow> JsonNode option" where
  "gs_plugin_odrs_get_compat_ids app =
     (let ids = foldl (\<lambda>ids prov. if provided_kind prov \<noteq> AS_PROVIDED_KIND_ID then ids
                                    else add_new_ids ids (provided_items prov))
                      [] (app_provided app)
      in if length ids = 0 then None else Some (JsonArray (map JsonString ids)))"

definition printf_s :: "string option \<Rightarrow> string" where
  "printf_s s = (case s of None \<Rightarrow> ''(null)'' | Some v \<Rightarrow> v)"

definition fetch_request :: "odrs_env \<Rightarrow> odrs_state \<Rightarrow> GsApp \<Rightarrow> JsonNode" where
  "fetch_request env st app =
     JsonObject
       ([(''user_hash'', json_string_value (user_hash st)),
         (''app_id'', json_string_value (app_id app)),
         (''locale'', JsonString (plugin_locale env)),
         (''distro'', json_string_value (distro st)),
         (''version'', JsonString (case app_version app of None \<Rightarrow> ''unknown'' | Some v \<Rightarrow> v)),
         (''limit'', JsonInt ODRS_REVIEW_NUMBER_RESULTS_MAX)] @
        (case gs_plugin_odrs_get_compat_ids app of
           None \<Rightarrow> []
         | Some json_compat_ids \<Rightarrow> [(''compat_ids'', json_compat_ids)]))"

text \<open>
  \<^verbatim>\<open>gs_plugin_odrs_fetch_for_app\<close>: a NULL result is \<open>Inl\<close> with the error set. The cache
  file is used when its age is below \<^verbatim>\<open>ODRS_REVIEW_CACHE_AGE_MAX\<close>; otherwise the request
  is sent, and a good answer is written to the cache file.
\<close>

definition gs_plugin_odrs_fetch_for_app ::
  "odrs_env \<Rightarrow> odrs_state \<Rightarrow> GsApp \<Rightarrow> (GError + AsReview list) \<times> odrs_state" where
  "gs_plugin_odrs_fetch_for_app env st app =
     (if server_disabled st then (Inr [], st)
      else
        (let cachefn_basename = printf_s (app_id app) @ ''.json'' in
         case get_cache_filename env cachefn_basename of
           Inl e \<Rightarrow> (Inl e, st)
         | Inr cachefn \<Rightarrow>
             if get_file_age env cachefn < ODRS_REVIEW_CACHE_AGE_MAX then
               (let st1 = do_io st (FILE_READ cachefn) in
                case mapped_file_new env cachefn of
                  Inl e \<Rightarrow> (Inl e, st1)
                | Inr contents \<Rightarrow> (gs_plugin_odrs_parse_reviews env contents, st1))
             else
               (let uri = server_uri st @ ''/fetch'';
                    msg = HTTP_POST uri (fetch_request env st app);
                    st1 = do_io st (NETWORK_SEND msg);
                    (status_code, response_body) = soup_session_send_message env msg
                in if status_code \<noteq> SOUP_STATUS_OK then
                     (case gs_plugin_odrs_parse_success env response_body of
                        Some e \<Rightarrow> (Inl e, st1)
                      | None \<Rightarrow> (Inl (PluginError GS_PLUGIN_ERROR_DOWNLOAD_FAILED), st1))
                   else
                     (case gs_plugin_odrs_parse_reviews env response_body of
                        Inl e \<Rightarrow> (Inl e, st1)
                      | Inr reviews \<Rightarrow>
                          (let st2 = do_io st1 (FILE_WRITE cachefn) in
                           case file_set_contents env cachefn response_body of
                             Some e \<Rightarrow> (Inl e, st2)
                           | None \<Rightarrow> (Inr reviews, st2))))))"

fun add_each_review :: "odrs_state \<Rightarrow> GsApp \<Rightarrow> AsReview list \<Rightarrow> nat \<Rightarrow> GsApp" where
  "add_each_review st app [] i = app"
| "add_each_review st app (review # rest) i =
     (let app1 = (if i = 0
                  then gs_app_set_metadata app ''ODRS::user_skey''
                         (as_review_get_metadata_item review ''user_skey'')
                  else app)
      in if review_rating review = 0 then add_each_review st app1 rest (i + 1)
         else
           (let review1 = (if g_strcmp0 (review_reviewer_id review) (user_hash st) = 0
                           then review\<lparr>review_flags := {AS_REVIEW_FLAG_SELF}\<rparr>
                           else review)
            in add_each_review st (gs_app_add_review app1 review1) rest (i + 1)))"

definition gs_plugin_odrs_refine_reviews ::
  "odrs_env \<Rightarrow> odrs_state \<Rightarrow> GsApp \<Rightarrow> GError option \<times> odrs_state \<times> GsApp" where
  "gs_plugin_odrs_refine_reviews env st app =
     (case gs_plugin_odrs_fetch_for_app env st app of
        (Inl e, st') \<Rightarrow> (Some e, st', app)
      | (Inr reviews, st') \<Rightarrow> (None, st', add_each_review st' app reviews 0))"

subsection \<open>Refining an application and a list\<close>

datatype GsPluginRefineFlags =
    GS_PLUGIN_REFINE_FLAGS_REQUIRE_REVIEWS
  | GS_PLUGIN_REFINE_FLAGS_REQUIRE_REVIEW_RATINGS
  | GS_PLUGIN_REFINE_FLAGS_REQUIRE_RATING
  | GS_PLUGIN_REFINE_FLAGS_REQUIRE_ICON
  | GS_PLUGIN_REFINE_FLAGS_REQUIRE_VERSION

text \<open>
  \<^verbatim>\<open>refine_app\<close>, with the flag word as the set of its bits. The result is the fault of the
  ratings search, or the error (\<open>None\<close> for TRUE), the state and the application. The
  first step is the reviews block: \<open>Inl\<close> is a \<^verbatim>\<open>return\<close> from inside it, \<open>Inr\<close> falls
  through to the ratings block.
\<close>

definition refine_app ::
  "odrs_env \<Rightarrow> odrs_state \<Rightarrow> GsApp \<Rightarrow> GsPluginRefineFlags set \<Rightarrow>
     memory_fault + (GError option \<times> odrs_state \<times> GsApp)" where
  "refine_app env st app flags =
     (if app_kind app = AS_COMPONENT_KIND_ADDON then Inr (None, st, app)
      else if app_id app = None then Inr (None, st, app)
      else
        (let reviews_step =
               (if GS_PLUGIN_REFINE_FLAGS_REQUIRE_REVIEWS \<in> flags then
                  (if length (app_reviews app) > 0 then Inl (None, st, app)
                   else (case gs_plugin_odrs_refine_reviews env st app of
                           (Some e, st', app') \<Rightarrow> Inl (Some e, st', app')
                         | (None, st', app') \<Rightarrow> Inr (st', app')))
                else Inr (st, app))
         in case reviews_step of
              Inl returned \<Rightarrow> Inr returned
            | Inr (st1, app1) \<Rightarrow>
                if GS_PLUGIN_REFINE_FLAGS_REQUIRE_REVIEW_RATINGS \<in> flags \<or>
                   GS_PLUGIN_REFINE_FLAGS_REQUIRE_RATING \<in> flags
                then
                  (if app_review_ratings app1 \<noteq> None then Inr (None, st1, app1)
                   else gs_plugin_odrs_refine_ratings env st1 app1)
                else Inr (None, st1, app1)))"

text \<open>
  \<^verbatim>\<open>gs_plugin_refine\<close>: the loop over the list. An application whose refinement fails with
  NO_NETWORK is logged and skipped; any other failure ends the loop with that error.
\<close>

fun refine_each_app ::
  "odrs_env \<Rightarrow> GsPluginRefineFlags set \<Rightarrow> odrs_state \<Rightarrow> GsApp list \<Rightarrow>
     memory_fault + (GError option \<times> odrs_state \<times> GsApp list)" where
  "refine_each_app env flags st [] = Inr (None, st, [])"
| "refine_each_app env flags st (app # rest) =
     (case refine_app env st app flags of
        Inl fault \<Rightarrow> Inl fault
      | Inr (local_error, st', app') \<Rightarrow>
          if local_error = None \<or> local_error = Some (PluginError GS_PLUGIN_ERROR_NO_NETWORK)
          then
            (case refine_each_app env flags st' rest of
               Inl fault \<Rightarrow> Inl fault
             | Inr (error, st'', rest') \<Rightarrow> Inr (error, st'', app' # rest'))
          else Inr (local_error, st', app' # rest))"

definition gs_plugin_refine ::
  "odrs_env \<Rightarrow> odrs_state \<Rightarrow> GsApp list \<Rightarrow> GsPluginRefineFlags set \<Rightarrow>
     memory_fault + (GError option \<times> odrs_state \<times> GsApp list)" where
  "gs_plugin_refine env st list flags =
     (if flags \<inter> {GS_PLUGIN_REFINE_FLAGS_REQUIRE_REVIEWS,
                    GS_PLUGIN_REFINE_FLAGS_REQUIRE_REVIEW_RATINGS,
                    GS_PLUGIN_REFINE_FLAGS_REQUIRE_RATING} = {}
      then Inr (None, st, list)
      else refine_each_app env flags st list)"

subsection \<open>Submitting reviews and voting\<close>

fun cut_at :: "string \<Rightarrow> string \<Rightarrow> string" where
  "cut_at pat [] = []"
| "cut_at pat (c # cs) = (if take (length pat) (c # cs) = pat then [] else c # cut_at pat cs)"

definition gs_plugin_odrs_sanitize_version :: "string option \<Rightarrow> string" where
  "gs_plugin_odrs_sanitize_version version =
     (case version of
        None \<Rightarrow> ''unknown''
      | Some v \<Rightarrow>
          (let v1 = (if CHR '':'' \<in> set v then rev (takeWhile (\<lambda>c. c \<noteq> CHR '':'') (rev v)) else v);
               tmp = takeWhile (\<lambda>c. c \<noteq> CHR ''-'') v1
           in cut_at ''+dfsg'' tmp))"

definition gs_plugin_odrs_invalidate_cache ::
  "odrs_env \<Rightarrow> odrs_state \<Rightarrow> AsReview \<Rightarrow> GError option \<times> odrs_state" where
  "gs_plugin_odrs_invalidate_cache env st review =
     (let cachefn_basename = printf_s (as_review_get_metadata_item review ''app_id'') @ ''.json'' in
      case get_cache_filename env cachefn_basename of
        Inl e \<Rightarrow> (Some e, st)
      | Inr cachefn \<Rightarrow>
          if \<not> file_query_exists env cachefn then (None, st)
          else (file_delete env cachefn, do_io st (FILE_DELETE cachefn)))"

definition submit_request :: "odrs_env \<Rightarrow> odrs_state \<Rightarrow> AsReview \<Rightarrow> JsonNode" where
  "submit_request env st review =
     JsonObject
       [(''user_hash'', json_string_value (user_hash st)),
        (''user_skey'', json_string_value (as_review_get_metadata_item review ''user_skey'')),
        (''app_id'', json_string_value (as_review_get_metadata_item review ''app_id'')),
        (''locale'', JsonString (plugin_locale env)),
        (''distro'', json_string_value (distro st)),
        (''version'', JsonString (gs_plugin_odrs_sanitize_version (review_version review))),
        (''user_display'', json_string_value (review_reviewer_name review)),
        (''summary'', json_string_value (review_summary review)),
        (''description'', json_string_value (review_description review)),
        (''rating'', JsonInt (review_rating review))]"

definition gs_plugin_review_submit ::
  "odrs_env \<Rightarrow> odrs_state \<Rightarrow> GsApp \<Rightarrow> AsReview \<Rightarrow> GError option \<times> odrs_state \<times> AsReview" where
  "gs_plugin_review_submit env st app review =
     (if server_disabled st then (Some (PluginError GS_PLUGIN_ERROR_NOT_SUPPORTED), st, review)
      else
        (let review1 = review\<lparr>review_flags := insert AS_REVIEW_FLAG_SELF (review_flags review)\<rparr>;
             review2 = review1\<lparr>review_reviewer_name := Some (real_name env)\<rparr>;
             review3 = as_review_add_metadata review2 ''app_id'' (app_id app);
             review4 = as_review_add_metadata review3 ''user_skey''
                         (gs_app_get_metadata_item app ''ODRS::user_skey'');
             payload = submit_request env st review4
         in case gs_plugin_odrs_invalidate_cache env st review4 of
              (Some e, st1) \<Rightarrow> (Some e, st1, review4)
            | (None, st1) \<Rightarrow>
                (let uri = server_uri st @ ''/submit'';
                     (result, st2) = gs_plugin_odrs_json_post env st1 uri payload
                 in (result, st2, review4))))"

fun digits_value :: "int \<Rightarrow> string \<Rightarrow> int" where
  "digits_value acc [] = acc"
| "digits_value acc (c # cs) =
     (if (48::nat) \<le> of_char c \<and> of_char c \<le> (57::nat)
      then digits_value (acc * 10 + (of_char c - 48)) cs
      else acc)"

text \<open>
  \<^verbatim>\<open>g_ascii_strtoll\<close> in base 10: leading white space is skipped, then an optional
  sign and the leading digits are read, and a value outside the 64-bit range is replaced by
  \<^verbatim>\<open>G_MININT64\<close> or \<^verbatim>\<open>G_MAXINT64\<close>.
\<close>

definition g_ascii_isspace :: "char \<Rightarrow> bool" where
  "g_ascii_isspace c = ((of_char c :: nat) = 32 \<or> (9 \<le> (of_char c :: nat) \<and> (of_char c :: nat) \<le> 13))"

definition g_ascii_strtoll :: "string \<Rightarrow> int" where
  "g_ascii_strtoll nptr =
     (case dropWhile g_ascii_isspace nptr of
        [] \<Rightarrow> 0
      | c # cs \<Rightarrow>
          if c = CHR ''-'' then max (- (2 ^ 63)) (- digits_value 0 cs)
          else if c = CHR ''+'' then min (2 ^ 63 - 1) (digits_value 0 cs)
          else min (2 ^ 63 - 1) (digits_value 0 (c # cs)))"

definition vote_request :: "odrs_state \<Rightarrow> AsReview \<Rightarrow> JsonNode" where
  "vote_request st review =
     JsonObject
       ([(''user_hash'', json_string_value (user_hash st)),
         (''user_skey'', json_string_value (as_review_get_metadata_item review ''user_skey'')),
         (''app_id'', json_string_value (as_review_get_metadata_item review ''app_id''))] @
        (case review_id review of
           None \<Rightarrow> []
         | Some tmp \<Rightarrow> [(''review_id'', JsonInt (g_ascii_strtoll tmp))]))"

definition gs_plugin_odrs_vote ::
  "odrs_env \<Rightarrow> odrs_state \<Rightarrow> AsReview \<Rightarrow> string \<Rightarrow> GError option \<times> odrs_state \<times> AsReview" where
  "gs_plugin_odrs_vote env st review path =
     (if server_disabled st then (Some (PluginError GS_PLUGIN_ERROR_NOT_SUPPORTED), st, review)
      else
        (let uri = server_uri st @ ''/'' @ path;
             payload = vote_request st review
         in case gs_plugin_odrs_invalidate_cache env st review of
              (Some e, st1) \<Rightarrow> (Some e, st1, review)
            | (None, st1) \<Rightarrow>
                (case gs_plugin_odrs_json_post env st1 uri payload of
                   (Some e, st2) \<Rightarrow> (Some e, st2, review)
                 | (None, st2) \<Rightarrow>
                     (None, st2,
                      review\<lparr>review_flags := insert AS_REVIEW_FLAG_VOTED (review_flags review)\<rparr>))))"

definition gs_plugin_review_report ::
  "odrs_env \<Rightarrow> odrs_state \<Rightarrow> GsApp \<Rightarrow> AsReview \<Rightarrow> GError option \<times> odrs_state \<times> AsReview" where
  "gs_plugin_review_report env st app review = gs_plugin_odrs_vote env st review ''report''"

definition gs_plugin_review_upvote ::
  "odrs_env \<Rightarrow> odrs_state \<Rightarrow> GsApp \<Rightarrow> AsReview \<Rightarrow> GError option \<times> odrs_state \<times> AsReview" where
  "gs_plugin_review_upvote env st app review = gs_plugin_odrs_vote env st review ''upvote''"

definition gs_plugin_review_downvote ::
  "odrs_env \<Rightarrow> odrs_state \<Rightarrow> GsApp \<Rightarrow> AsReview \<Rightarrow> GError option \<times> odrs_state \<times> AsReview" where
  "gs_plugin_review_downvote env st app review = gs_plugin_odrs_vote env st review ''downvote''"

definition gs_plugin_review_dismiss ::
  "odrs_env \<Rightarrow> odrs_state \<Rightarrow> GsApp \<Rightarrow> AsReview \<Rightarrow> GError option \<times> odrs_state \<times> AsReview" where
  "gs_plugin_review_dismiss env st app review = gs_plugin_odrs_vote env st review ''dismiss''"

definition gs_plugin_review_remove ::
  "odrs_env \<Rightarrow> odrs_state \<Rightarrow> GsApp \<Rightarrow> AsReview \<Rightarrow> GError option \<times> odrs_state \<times> AsReview" where
  "gs_plugin_review_remove env st app review = gs_plugin_odrs_vote env st review ''remove''"

subsection \<open>Reviews waiting for moderation\<close>

function remove_all :: "string \<Rightarrow> string \<Rightarrow> string" where
  "remove_all pat [] = []"
| "remove_all pat (c # cs) =
     (if pat \<noteq> [] \<and> take (length pat) (c # cs) = pat
      then remove_all pat (drop (length pat) (c # cs))
      else c # remove_all pat cs)"
  by pat_completeness auto
termination
  by (relation "measure (\<lambda>(pat, s). length s)") auto

definition gs_plugin_create_app_dummy :: "string \<Rightarrow> GsApp" where
  "gs_plugin_create_app_dummy ident =
     (gs_app_new (Some ident))
       \<lparr>app_name := Some ''Unknown Application'',
        app_summary := Some ''Application not found'',
        app_description :=
          Some (''No description is available for '' @ remove_all ''.desktop'' ident)\<rparr>"

text \<open>
  The loop of \<^verbatim>\<open>gs_plugin_add_unvoted_reviews\<close>. The hash table maps an application id
  to the address of the application made for it; the list and the table hold the same
  address, so a review added through the table is seen through the list. A review without
  an \<^verbatim>\<open>app_id\<close> item makes the table hash a NULL string, which is the NULL read fault.
\<close>

fun fake_each_app ::
  "GsApp list \<Rightarrow> app_ptr list \<Rightarrow> (string \<times> app_ptr) list \<Rightarrow> AsReview list \<Rightarrow>
     memory_fault + (GsApp list \<times> app_ptr list)" where
  "fake_each_app store list hash [] = Inr (store, list)"
| "fake_each_app store list hash (review # rest) =
     (case as_review_get_metadata_item review ''app_id'' of
        None \<Rightarrow> Inl NullDereference
      | Some ident \<Rightarrow>
          (case map_of hash ident of
             None \<Rightarrow>
               (let app = length store;
                    store1 = store @ [gs_plugin_create_app_dummy ident];
                    list1 = gs_app_list_add store1 list app;
                    hash1 = (ident, app) # hash;
                    store2 = store1[app := gs_app_add_review (store1 ! app) review]
                in fake_each_app store2 list1 hash1 rest)
           | Some app \<Rightarrow>
               fake_each_app (store[app := gs_app_add_review (store ! app) review])
                 list hash rest))"

definition gs_plugin_add_unvoted_reviews ::
  "odrs_env \<Rightarrow> odrs_state \<Rightarrow> GsApp list \<Rightarrow> app_ptr list \<Rightarrow>
     memory_fault + (GError option \<times> odrs_state \<times> GsApp list \<times> app_ptr list)" where
  "gs_plugin_add_unvoted_reviews env st store list =
     (if server_disabled st
      then Inr (Some (PluginError GS_PLUGIN_ERROR_NOT_SUPPORTED), st, store, list)
      else
        (let uri = server_uri st @ ''/moderate/'' @ printf_s (user_hash st) @ ''/'' @ plugin_locale env;
             msg = HTTP_GET uri;
             st1 = do_io st (NETWORK_SEND msg);
             (status_code, response_body) = soup_session_send_message env msg
         in if status_code \<noteq> SOUP_STATUS_OK then
              (case gs_plugin_odrs_parse_success env response_body of
                 Some e \<Rightarrow> Inr (Some e, st1, store, list)
               | None \<Rightarrow> Inr (Some (PluginError GS_PLUGIN_ERROR_DOWNLOAD_FAILED), st1, store, list))
            else
              (case gs_plugin_odrs_parse_reviews env response_body of
                 Inl e \<Rightarrow> Inr (Some e, st1, store, list)
               | Inr reviews \<Rightarrow>
                   (case fake_each_app store list [] reviews of
                      Inl fault \<Rightarrow> Inl fault
                    | Inr (store', list') \<Rightarrow> Inr (None, st1, store', list')))))"


section \<open>The firmware plugin (plugins/fwupd/gs-plugin-fwupd.c)\<close>

subsection \<open>Devices, the environment and the plugin state\<close>

text \<open>
  The source is compiled against one version of the fwupd library; the three version tests
  it makes (\<^verbatim>\<open>FWUPD_CHECK_VERSION\<close>) are the build configuration.
\<close>

record build_config =
  fwupd_1_2_10 :: bool
  fwupd_1_4_5 :: bool
  fwupd_1_5_2 :: bool

record FwupdRelease =
  release_appstream_id :: "string option"
  release_version :: "string option"
  release_checksums :: "string list"
  release_uri :: "string option"

datatype FwupdDeviceFlag =
  FWUPD_DEVICE_FLAG_UPDATABLE | FWUPD_DEVICE_FLAG_LOCKED | FWUPD_DEVICE_FLAG_SUPPORTED

record FwupdDevice =
  fwupd_device_id :: "string option"
  fwupd_device_flags :: "FwupdDeviceFlag set"
  fwupd_device_version :: "string option"
  fwupd_device_release_default :: "FwupdRelease option"
  fwupd_device_update_message :: "string option"
  fwupd_device_update_image :: "string option"

datatype FwupdInstallFlags = FWUPD_INSTALL_FLAG_OFFLINE

text \<open>
  The environment of the firmware plugin: the fwupd client, the file system and the helpers
  defined outside the plugin. The two generic error converters answer \<open>Some e'\<close> when they
  recognise the error and rewrite it to \<open>e'\<close>, and \<open>None\<close> when they leave it alone. The
  application cache is read only: an insertion into it changes later lookups, which no
  function below performs twice.
\<close>

record fwupd_env =
  plugin_name :: string
  config :: build_config
  error_convert_gio :: "GError \<Rightarrow> GError option"
  error_convert_gdbus :: "GError \<Rightarrow> GError option"
  build_data_id :: "string \<Rightarrow> string"
  plugin_cache_lookup :: "string \<Rightarrow> GsApp option"
  set_from_device :: "GsApp \<Rightarrow> FwupdDevice \<Rightarrow> GsApp"
  set_from_release :: "GsApp \<Rightarrow> FwupdRelease \<Rightarrow> GsApp"
  path_get_basename :: "string \<Rightarrow> string"
  fw_get_cache_filename :: "string \<Rightarrow> GError + string"
  file_test_exists :: "string \<Rightarrow> bool"
  file_get_contents :: "string \<Rightarrow> GError + string"
  compute_checksum_sha1 :: "string \<Rightarrow> string"
  client_download_file :: "string option \<Rightarrow> string \<Rightarrow> GError option"
  plugin_download_file :: "string option \<Rightarrow> string \<Rightarrow> GError option"
  client_install :: "string \<Rightarrow> string \<Rightarrow> FwupdInstallFlags set \<Rightarrow> GError option"
  client_modify_remote :: "string \<Rightarrow> string \<Rightarrow> string \<Rightarrow> GError option"
  client_get_device_by_id :: "string \<Rightarrow> GError + FwupdDevice"
  local_file_query_exists :: "string \<Rightarrow> bool"
  local_file_delete :: "string \<Rightarrow> GError option"

datatype fwupd_op =
    CLIENT_DOWNLOAD_FILE "string option" string
  | PLUGIN_DOWNLOAD_FILE "string option" string
  | CLIENT_INSTALL string string "FwupdInstallFlags set"
  | CLIENT_MODIFY_REMOTE string string string
  | CLIENT_GET_DEVICE_BY_ID string
  | LOCAL_FILE_DELETE string
  | UNLINK string

text \<open>
  The plugin state: the application an installation is running for (a snapshot of the
  record at the time it is set; the status callbacks that read it are not modelled), and
  the log of the calls made to the client and of the files removed, in order.
\<close>

record fwupd_state =
  app_current :: "GsApp option"
  client_log :: "fwupd_op list"

definition do_call :: "fwupd_state \<Rightarrow> fwupd_op \<Rightarrow> fwupd_state" where
  "do_call st op = st\<lparr>client_log := client_log st @ [op]\<rparr>"

definition FWUPD_DEVICE_ID_ANY :: string where
  "FWUPD_DEVICE_ID_ANY = ''*''"

subsection \<open>Error conversion\<close>

text \<open>
  \<^verbatim>\<open>gs_plugin_fwupd_error_convert\<close> rewrites the error in place; here it returns the error
  that is left. \<open>None\<close> is the error that is not set.
\<close>

definition gs_plugin_fwupd_error_convert :: "fwupd_env \<Rightarrow> GError option \<Rightarrow> GError option" where
  "gs_plugin_fwupd_error_convert env perror =
     (case perror of
        None \<Rightarrow> None
      | Some error \<Rightarrow>
          if error_domain error = GS_PLUGIN_ERROR then Some error
          else
            (case error_convert_gio env error of
               Some e' \<Rightarrow> Some e'
             | None \<Rightarrow>
                 (case error_convert_gdbus env error of
                    Some e' \<Rightarrow> Some e'
                  | None \<Rightarrow>
                      (case error of
                         FwupdClientError code \<Rightarrow>
                           Some (PluginError
                             (case code of
                                FWUPD_ERROR_ALREADY_PENDING \<Rightarrow> GS_PLUGIN_ERROR_NOT_SUPPORTED
                              | FWUPD_ERROR_INVALID_FILE \<Rightarrow> GS_PLUGIN_ERROR_NOT_SUPPORTED
                              | FWUPD_ERROR_NOT_SUPPORTED \<Rightarrow> GS_PLUGIN_ERROR_NOT_SUPPORTED
                              | FWUPD_ERROR_AUTH_FAILED \<Rightarrow> GS_PLUGIN_ERROR_AUTH_INVALID
                              | FWUPD_ERROR_SIGNATURE_INVALID \<Rightarrow> GS_PLUGIN_ERROR_NO_SECURITY
                              | FWUPD_ERROR_AC_POWER_REQUIRED \<Rightarrow> GS_PLUGIN_ERROR_AC_POWER_REQUIRED
                              | FWUPD_ERROR_BATTERY_LEVEL_TOO_LOW \<Rightarrow>
                                  if fwupd_1_2_10 (config env)
                                  then GS_PLUGIN_ERROR_BATTERY_LEVEL_TOO_LOW
                                  else GS_PLUGIN_ERROR_FAILED
                              | _ \<Rightarrow> GS_PLUGIN_ERROR_FAILED))
                       | _ \<Rightarrow> Some (PluginError GS_PLUGIN_ERROR_FAILED)))))"

subsection \<open>Building the update entity of a device\<close>

definition gs_plugin_fwupd_new_app_from_device :: "fwupd_env \<Rightarrow> FwupdDevice \<Rightarrow> GsApp option" where
  "gs_plugin_fwupd_new_app_from_device env dev =
     (case fwupd_device_release_default dev of
        None \<Rightarrow> None
      | Some rel \<Rightarrow>
          (case release_appstream_id rel of
             None \<Rightarrow> None
           | Some appstream_id \<Rightarrow>
               (let ident = build_data_id env appstream_id;
                    app = (case plugin_cache_lookup env ident of
                             None \<Rightarrow> gs_app_new (Some ident)
                           | Some cached \<Rightarrow> cached);
                    app = app\<lparr>app_kind := AS_COMPONENT_KIND_FIRMWARE,
                              app_bundle_kind := AS_BUNDLE_KIND_CABINET,
                              app_quirks := app_quirks app \<union>
                                {GS_APP_QUIRK_NOT_LAUNCHABLE, GS_APP_QUIRK_DO_NOT_AUTO_UPDATE},
                              app_management_plugin := Some ''fwupd'',
                              app_categories := app_categories app @ [''System''],
                              app_device_id := fwupd_device_id dev,
                              app_icons := app_icons app @ [''application-x-firmware'']\<rparr>;
                    app = set_from_device env app dev;
                    app = set_from_release env app rel
                in Some (app\<lparr>app_id := Some appstream_id\<rparr>))))"

text \<open>
  \<^verbatim>\<open>fwupd_checksum_get_by_kind\<close> for SHA-1: the first checksum whose length is not that of
  another digest (32, 64 or 128 hexadecimal digits).
\<close>

definition fwupd_checksum_get_sha1 :: "string list \<Rightarrow> string option" where
  "fwupd_checksum_get_sha1 checksums =
     find (\<lambda>c. length c \<noteq> 32 \<and> length c \<noteq> 64 \<and> length c \<noteq> 128) checksums"

definition gs_plugin_fwupd_get_file_checksum :: "fwupd_env \<Rightarrow> string \<Rightarrow> GError + string" where
  "gs_plugin_fwupd_get_file_checksum env filename =
     (case file_get_contents env filename of
        Inl e \<Rightarrow> Inl (case error_convert_gio env e of Some e' \<Rightarrow> e' | None \<Rightarrow> e)
      | Inr contents \<Rightarrow> Inr (compute_checksum_sha1 env contents))"

text \<open>
  \<^verbatim>\<open>gs_plugin_fwupd_new_app\<close>: NULL with the error set is \<open>Inl\<close>. A NULL application
  from the step before reads as state UNKNOWN. Where the cached file has no SHA-1 checksum
  the source sets the error and goes on; an error set later does not replace it.
\<close>

definition gs_plugin_fwupd_new_app ::
  "fwupd_env \<Rightarrow> fwupd_state \<Rightarrow> FwupdDevice \<Rightarrow> (GError + GsApp) \<times> fwupd_state" where
  "gs_plugin_fwupd_new_app env st dev =
     (case gs_plugin_fwupd_new_app_from_device env dev of
        None \<Rightarrow> (Inl (PluginError GS_PLUGIN_ERROR_NOT_SUPPORTED), st)
      | Some app \<Rightarrow>
          if app_state app \<noteq> GS_APP_STATE_UPDATABLE_LIVE
          then (Inl (PluginError GS_PLUGIN_ERROR_NOT_SUPPORTED), st)
          else if app_id app = None then (Inl (PluginError GS_PLUGIN_ERROR_NOT_SUPPORTED), st)
          else if app_version app = None then (Inl (PluginError GS_PLUGIN_ERROR_NOT_SUPPORTED), st)
          else if app_update_version app = None
          then (Inl (PluginError GS_PLUGIN_ERROR_NOT_SUPPORTED), st)
          else
            (let checksums = (case fwupd_device_release_default dev of
                                None \<Rightarrow> [] | Some rel \<Rightarrow> release_checksums rel);
                 update_uri = (case fwupd_device_release_default dev of
                                 None \<Rightarrow> None | Some rel \<Rightarrow> release_uri rel)
             in if length checksums = 0 then (Inl (PluginError GS_PLUGIN_ERROR_NO_SECURITY), st)
                else
                  (case update_uri of
                     None \<Rightarrow> (Inl (PluginError GS_PLUGIN_ERROR_INVALID_FORMAT), st)
                   | Some uri \<Rightarrow>
                       (case fw_get_cache_filename env (path_get_basename env uri) of
                          Inl e \<Rightarrow> (Inl e, st)
                        | Inr filename_cache \<Rightarrow>
                            if file_test_exists env filename_cache then
                              (let checksum_tmp = fwupd_checksum_get_sha1 checksums;
                                   error = (if checksum_tmp = None
                                            then Some (PluginError GS_PLUGIN_ERROR_INVALID_FORMAT)
                                            else None)
                               in case gs_plugin_fwupd_get_file_checksum env filename_cache of
                                    Inl e \<Rightarrow> (Inl (case error of None \<Rightarrow> e | Some first \<Rightarrow> first), st)
                                  | Inr checksum \<Rightarrow>
                                      if g_strcmp0 checksum_tmp (Some checksum) \<noteq> 0
                                      then (Inl (PluginError GS_PLUGIN_ERROR_INVALID_FORMAT),
                                            do_call st (UNLINK filename_cache))
                                      else (Inr (app\<lparr>app_size_download := Some 0,
                                                      app_local_file := Some filename_cache\<rparr>), st))
                            else (Inr (app\<lparr>app_local_file := Some filename_cache\<rparr>), st)))))"

subsection \<open>Installing, enabling and disabling\<close>

text \<open>
  \<^verbatim>\<open>gs_plugin_fwupd_install\<close>. The result is the error (\<open>None\<close> for TRUE), the plugin
  state and the application as the call leaves it.
\<close>

definition gs_plugin_fwupd_install ::
  "fwupd_env \<Rightarrow> fwupd_state \<Rightarrow> GsApp \<Rightarrow> GError option \<times> fwupd_state \<times> GsApp" where
  "gs_plugin_fwupd_install env st app =
     (case app_local_file app of
        None \<Rightarrow> (Some (PluginError GS_PLUGIN_ERROR_FAILED), st, app)
      | Some filename \<Rightarrow>
          (let download =
                 (if \<not> local_file_query_exists env filename then
                    (let uri = app_update_uri app;
                         app1 = gs_app_set_state app GS_APP_STATE_INSTALLING
                     in if fwupd_1_5_2 (config env) then
                          (case client_download_file env uri filename of
                             Some e \<Rightarrow>
                               Inl (gs_plugin_fwupd_error_convert env (Some e),
                                    do_call st (CLIENT_DOWNLOAD_FILE uri filename), app1)
                           | None \<Rightarrow> Inr (do_call st (CLIENT_DOWNLOAD_FILE uri filename), app1, True))
                        else
                          (case plugin_download_file env uri filename of
                             Some e \<Rightarrow> Inl (Some e, do_call st (PLUGIN_DOWNLOAD_FILE uri filename), app1)
                           | None \<Rightarrow> Inr (do_call st (PLUGIN_DOWNLOAD_FILE uri filename), app1, True)))
                  else Inr (st, app, False))
           in case download of
                Inl returned \<Rightarrow> returned
              | Inr (st1, app1, downloaded_to_cache) \<Rightarrow>
                  (let device_id = (case app_device_id app1 of
                                      None \<Rightarrow> FWUPD_DEVICE_ID_ANY | Some d \<Rightarrow> d);
                       st2 = st1\<lparr>app_current := Some app1\<rparr>;
                       install_flags =
                         (if gs_app_get_metadata_item app1 ''fwupd::OnlyOffline'' \<noteq> None
                          then {FWUPD_INSTALL_FLAG_OFFLINE} else {});
                       app2 = gs_app_set_state app1 GS_APP_STATE_INSTALLING;
                       st3 = do_call st2 (CLIENT_INSTALL device_id filename install_flags)
                   in case client_install env device_id filename install_flags of
                        Some e \<Rightarrow>
                          (gs_plugin_fwupd_error_convert env (Some e), st3,
                           gs_app_set_state_recover app2)
                      | None \<Rightarrow>
                          (let app3 = gs_app_set_state app2 GS_APP_STATE_INSTALLED;
                               deleted =
                                 (if downloaded_to_cache
                                  then (local_file_delete env filename,
                                        do_call st3 (LOCAL_FILE_DELETE filename))
                                  else (None, st3))
                           in case deleted of
                                (Some e, st4) \<Rightarrow> (Some e, st4, app3)
                              | (None, st4) \<Rightarrow>
                                  (let st5 = do_call st4 (CLIENT_GET_DEVICE_BY_ID device_id) in
                                   case client_get_device_by_id env device_id of
                                     Inl error_local \<Rightarrow> (None, st5, app3)
                                   | Inr dev \<Rightarrow>
                                       (case fwupd_device_update_message dev of
                                          None \<Rightarrow> (None, st5, app3)
                                        | Some message \<Rightarrow>
                                            (None, st5,
                                             app3\<lparr>app_action_screenshot :=
                                                     Some (if fwupd_1_4_5 (config env)
                                                           then fwupd_device_update_image dev
                                                           else None, message),
                                                   app_quirks := insert GS_APP_QUIRK_NEEDS_USER_ACTION
                                                                   (app_quirks app3)\<rparr>)))))))"

definition gs_plugin_fwupd_modify_source ::
  "fwupd_env \<Rightarrow> fwupd_state \<Rightarrow> GsApp \<Rightarrow> bool \<Rightarrow> GError option \<times> fwupd_state \<times> GsApp" where
  "gs_plugin_fwupd_modify_source env st app enabled =
     (case gs_app_get_metadata_item app ''fwupd::remote-id'' of
        None \<Rightarrow> (Some (PluginError GS_PLUGIN_ERROR_FAILED), st, app)
      | Some remote_id \<Rightarrow>
          (let app1 = gs_app_set_state app
                        (if enabled then GS_APP_STATE_INSTALLING else GS_APP_STATE_REMOVING);
               val = (if enabled then ''true'' else ''false'');
               st1 = do_call st (CLIENT_MODIFY_REMOTE remote_id ''Enabled'' val)
           in case client_modify_remote env remote_id ''Enabled'' val of
                Some e \<Rightarrow> (Some e, st1, gs_app_set_state_recover app1)
              | None \<Rightarrow>
                  (None, st1,
                   gs_app_set_state app1
                     (if enabled then GS_APP_STATE_INSTALLED else GS_APP_STATE_AVAILABLE))))"

definition gs_plugin_app_install ::
  "fwupd_env \<Rightarrow> fwupd_state \<Rightarrow> GsApp \<Rightarrow> GError option \<times> fwupd_state \<times> GsApp" where
  "gs_plugin_app_install env st app =
     (if g_strcmp0 (app_management_plugin app) (Some (plugin_name env)) \<noteq> 0 then (None, st, app)
      else if app_kind app = AS_COMPONENT_KIND_REPOSITORY
      then gs_plugin_fwupd_modify_source env st app True
      else gs_plugin_fwupd_install env st app)"

definition gs_plugin_app_remove ::
  "fwupd_env \<Rightarrow> fwupd_state \<Rightarrow> GsApp \<Rightarrow> GError option \<times> fwupd_state \<times> GsApp" where
  "gs_plugin_app_remove env st app =
     (if g_strcmp0 (app_management_plugin app) (Some (plugin_name env)) \<noteq> 0 then (None, st, app)
      else gs_plugin_fwupd_modify_source env st app False)"


section \<open>Example environments, states and applications\<close>

text \<open>
  A machine without network: every request ends with the status ``cannot resolve'' and no
  body, and the ratings download fails. The cache directory exists; the per-application
  cache files are absent (age \<^verbatim>\<open>G_MAXUINT\<close>), except one for the application \<open>b\<close>, which
  is ten seconds old and unreadable, and one for \<open>c\<close>, which is 300000 seconds old.
\<close>

definition offline_env :: odrs_env where
  "offline_env =
     \<lparr>network_available = False,
      interactive = True,
      plugin_locale = ''en_GB'',
      real_name = ''A User'',
      get_cache_filename = (\<lambda>basename. Inr (''/cache/odrs/'' @ basename)),
      get_file_age = (\<lambda>fn. if fn = ''/cache/odrs/b.json'' then 10
                            else if fn = ''/cache/odrs/c.json'' then 300000
                            else 4294967295),
      mapped_file_new = (\<lambda>fn. if fn = ''/cache/odrs/b.json''
                               then Inl (ForeignError ''g-file-error-quark'' 2)
                               else Inr (Some ''[]'')),
      json_load_from_data = (\<lambda>d. if d = ''[]'' then Inr (Some (JsonArray [])) else Inr None),
      json_load_from_file = (\<lambda>fn. Inl (ForeignError ''g-file-error-quark'' 4)),
      error_convert_json_glib = (\<lambda>e. PluginError GS_PLUGIN_ERROR_INVALID_FORMAT),
      soup_session_send_message = (\<lambda>msg. (2, None)),
      download_file = (\<lambda>uri fn. Some (PluginError GS_PLUGIN_ERROR_DOWNLOAD_FAILED)),
      file_set_contents = (\<lambda>fn contents. None),
      file_query_exists = (\<lambda>fn. False),
      file_delete = (\<lambda>fn. None),
      get_wilson_rating = (\<lambda>r1 r2 r3 r4 r5. 60),
      karma_priority = (\<lambda>ku kd. 0)\<rparr>"

text \<open>
  A plugin state with the review server set and a snapshot of one rated application,
  \<open>a\<close>; nothing has been done yet.
\<close>

definition example_state :: odrs_state where
  "example_state =
     \<lparr>review_server = Some ''https://odrs.example/1.0/reviews/api'',
      user_hash = Some ''cafe'',
      distro = Some ''Fedora'',
      ratings = Some \<lparr>data = [\<lparr>rating_app_id = Some ''a'', n_star_ratings = [0, 1, 2, 3, 4, 5]\<rparr>],
                      len = 1, elt_size = 32\<rparr>,
      io_log = [],
      events = []\<rparr>"

definition example_app :: "string \<Rightarrow> GsApp" where
  "example_app ident = (gs_app_new (Some ident))\<lparr>app_kind := AS_COMPONENT_KIND_DESKTOP_APP\<rparr>"

definition example_review :: AsReview where
  "example_review =
     as_review_new\<lparr>review_rating := 80, review_reviewer_id := Some ''beef'',
                   review_metadata := [(''app_id'', ''a'')]\<rparr>"

definition rated_app :: GsApp where
  "rated_app = (example_app ''a'')\<lparr>app_review_ratings := Some [0, 1, 2, 3, 4, 5], app_rating := 60\<rparr>"

definition reviewed_app :: GsApp where
  "reviewed_app = (example_app ''a'')\<lparr>app_reviews := [example_review]\<rparr>"

text \<open>
  An application of the system scope that comes from a package, and the application a plugin
  has made from an id alone, without scope, bundle kind, origin or branch.
\<close>

definition packaged_app :: "string \<Rightarrow> GsApp" where
  "packaged_app ident =
     (example_app ident)\<lparr>app_scope := AS_COMPONENT_SCOPE_SYSTEM,
                          app_bundle_kind := AS_BUNDLE_KIND_PACKAGE\<rparr>"

definition bare_app :: "string \<Rightarrow> GsApp" where
  "bare_app ident = gs_app_new (Some ident)"

text \<open>
  A machine with network and three reviews waiting for moderation: two for the application
  \<open>a\<close> and one for \<open>b.desktop\<close>, from three reviewers.
\<close>

definition review_json :: "string \<Rightarrow> string \<Rightarrow> JsonNode" where
  "review_json reviewer ident =
     JsonObject [(''user_hash'', JsonString reviewer), (''app_id'', JsonString ident),
                 (''rating'', JsonInt 80)]"

definition moderation_env :: odrs_env where
  "moderation_env =
     offline_env
       \<lparr>network_available := True,
        json_load_from_data :=
          (\<lambda>d. if d = ''reviews''
                then Inr (Some (JsonArray [review_json ''u1'' ''a'', review_json ''u2'' ''b.desktop'',
                                           review_json ''u3'' ''a'']))
                else Inr None),
        soup_session_send_message := (\<lambda>msg. (200, Some ''reviews''))\<rparr>"

definition moderated_review :: "string \<Rightarrow> string \<Rightarrow> AsReview" where
  "moderated_review reviewer ident =
     as_review_new\<lparr>review_rating := 80, review_reviewer_id := Some reviewer,
                   review_metadata := [(''app_id'', ident)]\<rparr>"

section \<open>The invariant of the moderation loop\<close>

definition review_app_id :: "AsReview \<Rightarrow> string option" where
  "review_app_id review = as_review_get_metadata_item review ''app_id''"

text \<open>
  Between two rounds of the loop of \<^verbatim>\<open>gs_plugin_add_unvoted_reviews\<close>, started on the
  store \<open>store0\<close> and the list \<open>list0\<close>, with the reviews \<open>seen\<close> already handled: the
  old objects are untouched, the list is the old list followed by the addresses in the hash
  table in the order they were made, and every table entry is the placeholder of its id and
  holds exactly the reviews seen for that id.
\<close>

definition loop_inv ::
  "GsApp list \<Rightarrow> app_ptr list \<Rightarrow> GsApp list \<Rightarrow> app_ptr list \<Rightarrow> (string \<times> app_ptr) list \<Rightarrow>
     AsReview list \<Rightarrow> bool" where
  "loop_inv store0 list0 store list hash seen \<longleftrightarrow>
     length store0 \<le> length store \<and>
     take (length store0) store = store0 \<and>
     list = list0 @ rev (map snd hash) \<and>
     distinct (map fst hash) \<and>
     distinct (map snd hash) \<and>
     fst ` set hash = {a. \<exists>r \<in> set seen. review_app_id r = Some a} \<and>
     (\<forall>(a, p) \<in> set hash.
        length store0 \<le> p \<and> p < length store \<and>
        app_id (store ! p) = Some a \<and>
        identity_key (store ! p) = identity_key (gs_plugin_create_app_dummy a) \<and>
        app_reviews (store ! p) = filter (\<lambda>r. review_app_id r = Some a) seen)"

section \<open>Example environment of the firmware plugin\<close>

text \<open>
  A fwupd client on which nothing works: downloads fail with an internal error, installing
  fails because the machine runs on battery, changing a remote fails with an authentication
  error. The generic converters recognise the errors of their own domain only. The helper
  that copies a device into an application marks it updatable when the device is. One
  firmware file is present in the cache, any other is missing.
\<close>

definition failing_fwupd_env :: fwupd_env where
  "failing_fwupd_env =
     \<lparr>plugin_name = ''fwupd'',
      config = \<lparr>fwupd_1_2_10 = True, fwupd_1_4_5 = True, fwupd_1_5_2 = True\<rparr>,
      error_convert_gio =
        (\<lambda>e. if error_domain e = OTHER_DOMAIN ''g-io-error-quark''
              then Some (PluginError GS_PLUGIN_ERROR_FAILED) else None),
      error_convert_gdbus =
        (\<lambda>e. if error_domain e = OTHER_DOMAIN ''g-dbus-error-quark''
              then Some (PluginError GS_PLUGIN_ERROR_FAILED) else None),
      build_data_id = (\<lambda>ident. ''system/*/*/'' @ ident @ ''/*''),
      plugin_cache_lookup = (\<lambda>ident. None),
      set_from_device =
        (\<lambda>app dev. app\<lparr>app_version := fwupd_device_version dev,
                         app_state := (if FWUPD_DEVICE_FLAG_UPDATABLE \<in> fwupd_device_flags dev
                                       then GS_APP_STATE_UPDATABLE_LIVE else app_state app)\<rparr>),
      set_from_release =
        (\<lambda>app rel. app\<lparr>app_update_version := release_version rel,
                         app_update_uri := release_uri rel\<rparr>),
      path_get_basename = (\<lambda>uri. ''firmware.cab''),
      fw_get_cache_filename = (\<lambda>basename. Inr (''/cache/fwupd/'' @ basename)),
      file_test_exists = (\<lambda>fn. False),
      file_get_contents = (\<lambda>fn. Inl (ForeignError ''g-file-error-quark'' 4)),
      compute_checksum_sha1 = (\<lambda>contents. ''da39a3ee5e6b4b0d3255bfef95601890afd80709''),
      client_download_file = (\<lambda>uri file. Some (FwupdClientError (FWUPD_ERROR_OTHER 0))),
      plugin_download_file = (\<lambda>uri file. Some (PluginError GS_PLUGIN_ERROR_DOWNLOAD_FAILED)),
      client_install =
        (\<lambda>device_id filename flags. Some (FwupdClientError FWUPD_ERROR_AC_POWER_REQUIRED)),
      client_modify_remote =
        (\<lambda>remote_id key val. Some (FwupdClientError FWUPD_ERROR_AUTH_FAILED)),
      client_get_device_by_id = (\<lambda>device_id. Inl (FwupdClientError FWUPD_ERROR_NOT_FOUND)),
      local_file_query_exists = (\<lambda>fn. fn = ''/cache/fwupd/present.cab''),
      local_file_delete = (\<lambda>fn. None)\<rparr>"

definition idle_fwupd_state :: fwupd_state where
  "idle_fwupd_state = \<lparr>app_current = None, client_log = []\<rparr>"

definition firmware_app :: "string \<Rightarrow> GsApp" where
  "firmware_app filename =
     (gs_app_new (Some ''com.test.chiron.firmware''))
       \<lparr>app_kind := AS_COMPONENT_KIND_FIRMWARE,
        app_state := GS_APP_STATE_UPDATABLE_LIVE,
        app_state_recover := GS_APP_STATE_UPDATABLE_LIVE,
        app_management_plugin := Some ''fwupd'',
        app_local_file := Some filename,
        app_update_uri := Some ''https://fw.example/firmware.cab''\<rparr>"

definition remote_app :: GsApp where
  "remote_app =
     (gs_app_new (Some ''org.fwupd.lvfs.remote''))
       \<lparr>app_kind := AS_COMPONENT_KIND_REPOSITORY,
        app_state := GS_APP_STATE_INSTALLED,
        app_state_recover := GS_APP_STATE_INSTALLED,
        app_management_plugin := Some ''fwupd'',
        app_metadata := [(''fwupd::remote-id'', ''lvfs'')]\<rparr>"

definition unsigned_release :: FwupdRelease where
  "unsigned_release =
     \<lparr>release_appstream_id = Some ''com.test.chiron.firmware'',
      release_version = Some ''0.2'',
      release_checksums = [],
      release_uri = Some ''https://fw.example/firmware.cab''\<rparr>"

definition example_device :: "FwupdDeviceFlag set \<Rightarrow> FwupdDevice" where
  "example_device flags =
     \<lparr>fwupd_device_id = Some ''dev0'',
      fwupd_device_flags = flags,
      fwupd_device_version = Some ''0.1'',
      fwupd_device_release_default = Some unsigned_release,
      fwupd_device_update_message = None,
      fwupd_device_update_image = None\<rparr>"

section \<open>An array of four gibibytes\<close>




section \<open>Facts about the binary search\<close>














section \<open>Facts about the ratings plugin\<close>

lemma strcmp_eq_0: "strcmp a b = 0 \<longleftrightarrow> a = b"
  by (induction a b rule: strcmp.induct) auto

lemma g_strcmp0_eq_0: "g_strcmp0 a b = 0 \<longleftrightarrow> a = b"
  by (cases a; cases b) (simp_all add: strcmp_eq_0)

lemma fetch_for_app_disabled:
  "server_disabled st \<Longrightarrow> gs_plugin_odrs_fetch_for_app env st app = (Inr [], st)"
  by (simp add: gs_plugin_odrs_fetch_for_app_def)

lemma refine_reviews_disabled:
  "server_disabled st \<Longrightarrow> gs_plugin_odrs_refine_reviews env st app = (None, st, app)"
  by (simp add: gs_plugin_odrs_refine_reviews_def fetch_for_app_disabled)

lemma refine_ratings_disabled:
  "server_disabled st \<Longrightarrow> gs_plugin_odrs_refine_ratings env st app = Inr (None, st, app)"
  by (simp add: gs_plugin_odrs_refine_ratings_def)

lemma refine_app_disabled:
  "server_disabled st \<Longrightarrow> refine_app env st app flags = Inr (None, st, app)"
  by (simp add: refine_app_def refine_reviews_disabled refine_ratings_disabled)

lemma refine_each_app_disabled:
  "server_disabled st \<Longrightarrow> refine_each_app env flags st list = Inr (None, st, list)"
  by (induction list) (simp_all add: refine_app_disabled)

text \<open>
  C8. With the review server unset or empty, refreshing and refining (the ratings step, and
  the whole refine job with any flags) return success with the state, and so the log of
  operations, and the applications unchanged; submitting a review, voting and fetching the
  unvoted reviews fail with NOT_SUPPORTED, again without any operation.
\<close>

theorem disabled_server_degrades:
  assumes "review_server st = None \<or> review_server st = Some []"
  shows "gs_plugin_refresh env st cache_age = (None, st) \<and>
         gs_plugin_odrs_refine_ratings env st app = Inr (None, st, app) \<and>
         gs_plugin_refine env st list flags = Inr (None, st, list) \<and>
         gs_plugin_review_submit env st app review =
           (Some (PluginError GS_PLUGIN_ERROR_NOT_SUPPORTED), st, review) \<and>
         gs_plugin_odrs_vote env st review path =
           (Some (PluginError GS_PLUGIN_ERROR_NOT_SUPPORTED), st, review) \<and>
         gs_plugin_add_unvoted_reviews env st store ptrs =
           Inr (Some (PluginError GS_PLUGIN_ERROR_NOT_SUPPORTED), st, store, ptrs)"
proof -
  from assms have d: "server_disabled st" by (simp add: server_disabled_def)
  have "gs_plugin_refresh env st cache_age = (None, st)"
    using d by (simp add: gs_plugin_refresh_def)
  moreover have "gs_plugin_odrs_refine_ratings env st app = Inr (None, st, app)"
    using d by (rule refine_ratings_disabled)
  moreover have "gs_plugin_refine env st list flags = Inr (None, st, list)"
    using d by (simp add: gs_plugin_refine_def refine_each_app_disabled)
  moreover have "gs_plugin_review_submit env st app review =
      (Some (PluginError GS_PLUGIN_ERROR_NOT_SUPPORTED), st, review)"
    using d by (simp add: gs_plugin_review_submit_def)
  moreover have "gs_plugin_odrs_vote env st review path =
      (Some (PluginError GS_PLUGIN_ERROR_NOT_SUPPORTED), st, review)"
    using d by (simp add: gs_plugin_odrs_vote_def)
  moreover have "gs_plugin_add_unvoted_reviews env st store ptrs =
      Inr (Some (PluginError GS_PLUGIN_ERROR_NOT_SUPPORTED), st, store, ptrs)"
    using d by (simp add: gs_plugin_add_unvoted_reviews_def)
  ultimately show ?thesis by simp
qed

theorem disabled_server_degrades_witness:
  "(review_server (example_state\<lparr>review_server := Some []\<rparr>) = None \<or>
    review_server (example_state\<lparr>review_server := Some []\<rparr>) = Some []) \<and>
   (gs_plugin_refresh offline_env (example_state\<lparr>review_server := Some []\<rparr>) 0
      = (None, example_state\<lparr>review_server := Some []\<rparr>) \<and>
    gs_plugin_odrs_refine_ratings offline_env (example_state\<lparr>review_server := Some []\<rparr>)
        (example_app ''a'')
      = Inr (None, example_state\<lparr>review_server := Some []\<rparr>, example_app ''a'') \<and>
    gs_plugin_refine offline_env (example_state\<lparr>review_server := Some []\<rparr>)
        [example_app ''a''] {GS_PLUGIN_REFINE_FLAGS_REQUIRE_RATING}
      = Inr (None, example_state\<lparr>review_server := Some []\<rparr>, [example_app ''a'']) \<and>
    gs_plugin_review_submit offline_env (example_state\<lparr>review_server := Some []\<rparr>)
        (example_app ''a'') example_review
      = (Some (PluginError GS_PLUGIN_ERROR_NOT_SUPPORTED),
         example_state\<lparr>review_server := Some []\<rparr>, example_review) \<and>
    gs_plugin_odrs_vote offline_env (example_state\<lparr>review_server := Some []\<rparr>)
        example_review ''upvote''
      = (Some (PluginError GS_PLUGIN_ERROR_NOT_SUPPORTED),
         example_state\<lparr>review_server := Some []\<rparr>, example_review) \<and>
    gs_plugin_add_unvoted_reviews offline_env (example_state\<lparr>review_server := Some []\<rparr>) [] []
      = Inr (Some (PluginError GS_PLUGIN_ERROR_NOT_SUPPORTED),
             example_state\<lparr>review_server := Some []\<rparr>, [], []))"
proof -
  have h: "review_server (example_state\<lparr>review_server := Some []\<rparr>) = None \<or>
           review_server (example_state\<lparr>review_server := Some []\<rparr>) = Some []"
    by simp
  from h disabled_server_degrades [OF h, where env = offline_env and cache_age = 0
      and app = "example_app ''a''" and list = "[example_app ''a'']"
      and flags = "{GS_PLUGIN_REFINE_FLAGS_REQUIRE_RATING}" and review = example_review
      and path = "''upvote''" and store = "[]" and ptrs = "[]"]
  show ?thesis by (rule conjI)
qed

lemma add_each_review_keeps_ratings:
  "app_review_ratings (add_each_review st app reviews i) = app_review_ratings app \<and>
   app_rating (add_each_review st app reviews i) = app_rating app"
  by (induction st app reviews i rule: add_each_review.induct)
     (simp_all add: Let_def gs_app_set_metadata_def gs_app_add_review_def)

lemma refine_reviews_keeps_ratings:
  "gs_plugin_odrs_refine_reviews env st app = (err, st', app') \<Longrightarrow>
   app_review_ratings app' = app_review_ratings app \<and> app_rating app' = app_rating app"
  by (auto simp: gs_plugin_odrs_refine_reviews_def add_each_review_keeps_ratings
           split: prod.splits sum.splits)

lemma refine_app_ratings_satisfied:
  assumes "app_review_ratings app \<noteq> None"
    and "GS_PLUGIN_REFINE_FLAGS_REQUIRE_REVIEWS \<notin> flags \<or> app_reviews app \<noteq> []"
  shows "refine_app env st app flags = Inr (None, st, app)"
  using assms by (auto simp: refine_app_def)

lemma refine_app_keeps_ratings:
  assumes "app_review_ratings app \<noteq> None"
  shows "\<exists>err st' app'. refine_app env st app flags = Inr (err, st', app') \<and>
           app_review_ratings app' = app_review_ratings app \<and> app_rating app' = app_rating app"
proof (cases "GS_PLUGIN_REFINE_FLAGS_REQUIRE_REVIEWS \<notin> flags \<or> app_reviews app \<noteq> []")
  case True
  with assms have "refine_app env st app flags = Inr (None, st, app)"
    by (rule refine_app_ratings_satisfied)
  then show ?thesis by simp
next
  case False
  obtain err st' app' where r: "gs_plugin_odrs_refine_reviews env st app = (err, st', app')"
    by (cases "gs_plugin_odrs_refine_reviews env st app") auto
  from r have k: "app_review_ratings app' = app_review_ratings app \<and> app_rating app' = app_rating app"
    by (rule refine_reviews_keeps_ratings)
  show ?thesis
  proof (cases err)
    case None
    with False r k assms show ?thesis by (auto simp: refine_app_def)
  next
    case (Some e)
    with False r k assms show ?thesis by (auto simp: refine_app_def)
  qed
qed

text \<open>
  C1, as amended. For an application whose review ratings are set and a flag word with
  REQUIRE_RATING or REQUIRE_REVIEW_RATINGS, refining never runs the ratings step: whatever
  else happens, the review ratings and the rating are those the application had. When the
  flag word does not also hold REQUIRE_REVIEWS, or the application already has reviews,
  refining returns success with the state, and so the log of operations, and the application
  unchanged. (With REQUIRE_REVIEWS and no reviews yet the reviews are fetched, which is work
  and can fail.)
\<close>

theorem refine_rating_satisfied:
  assumes "app_review_ratings app \<noteq> None"
    and "GS_PLUGIN_REFINE_FLAGS_REQUIRE_RATING \<in> flags \<or>
         GS_PLUGIN_REFINE_FLAGS_REQUIRE_REVIEW_RATINGS \<in> flags"
  shows "(\<exists>err st' app'. refine_app env st app flags = Inr (err, st', app') \<and>
            app_review_ratings app' = app_review_ratings app \<and>
            app_rating app' = app_rating app) \<and>
         (GS_PLUGIN_REFINE_FLAGS_REQUIRE_REVIEWS \<notin> flags \<or> app_reviews app \<noteq> [] \<longrightarrow>
            refine_app env st app flags = Inr (None, st, app) \<and>
            gs_plugin_refine env st [app] flags = Inr (None, st, [app]))"
proof -
  have one: "\<exists>err st' app'. refine_app env st app flags = Inr (err, st', app') \<and>
      app_review_ratings app' = app_review_ratings app \<and> app_rating app' = app_rating app"
    using assms(1) by (rule refine_app_keeps_ratings)
  have two: "refine_app env st app flags = Inr (None, st, app) \<and>
      gs_plugin_refine env st [app] flags = Inr (None, st, [app])"
    if c: "GS_PLUGIN_REFINE_FLAGS_REQUIRE_REVIEWS \<notin> flags \<or> app_reviews app \<noteq> []"
  proof -
    from assms(1) c have r: "refine_app env st app flags = Inr (None, st, app)"
      by (rule refine_app_ratings_satisfied)
    with assms(2) show ?thesis by (auto simp: gs_plugin_refine_def)
  qed
  from one two show ?thesis by blast
qed

theorem refine_rating_satisfied_witness:
  "app_review_ratings rated_app \<noteq> None \<and>
   refine_app offline_env example_state rated_app {GS_PLUGIN_REFINE_FLAGS_REQUIRE_RATING}
     = Inr (None, example_state, rated_app) \<and>
   gs_plugin_refine offline_env example_state [rated_app] {GS_PLUGIN_REFINE_FLAGS_REQUIRE_RATING}
     = Inr (None, example_state, [rated_app])"
proof -
  have h1: "app_review_ratings rated_app \<noteq> None"
    by (simp add: rated_app_def)
  have h2: "GS_PLUGIN_REFINE_FLAGS_REQUIRE_RATING \<in> {GS_PLUGIN_REFINE_FLAGS_REQUIRE_RATING} \<or>
            GS_PLUGIN_REFINE_FLAGS_REQUIRE_REVIEW_RATINGS \<in> {GS_PLUGIN_REFINE_FLAGS_REQUIRE_RATING}"
    by simp
  have h3: "GS_PLUGIN_REFINE_FLAGS_REQUIRE_REVIEWS \<notin> {GS_PLUGIN_REFINE_FLAGS_REQUIRE_RATING} \<or>
            app_reviews rated_app \<noteq> []"
    by simp
  from refine_rating_satisfied [OF h1 h2, where env = offline_env and st = example_state] h3
  have "refine_app offline_env example_state rated_app {GS_PLUGIN_REFINE_FLAGS_REQUIRE_RATING}
          = Inr (None, example_state, rated_app) \<and>
        gs_plugin_refine offline_env example_state [rated_app] {GS_PLUGIN_REFINE_FLAGS_REQUIRE_RATING}
          = Inr (None, example_state, [rated_app])"
    by blast
  with h1 show ?thesis by simp
qed

text \<open>
  The claim C1 as stated fails: the flag word may hold REQUIRE_REVIEWS too. For the rated
  application \<open>a\<close> without reviews and the flags REQUIRE_REVIEWS and REQUIRE_RATING, on
  the machine without network, the reviews are requested from the server (the request is in
  the log) and the call fails with NO_NETWORK.
\<close>

theorem refine_rating_satisfied_counterexample:
  "app_review_ratings rated_app \<noteq> None \<and>
   GS_PLUGIN_REFINE_FLAGS_REQUIRE_RATING \<in>
     {GS_PLUGIN_REFINE_FLAGS_REQUIRE_REVIEWS, GS_PLUGIN_REFINE_FLAGS_REQUIRE_RATING} \<and>
   refine_app offline_env example_state rated_app
       {GS_PLUGIN_REFINE_FLAGS_REQUIRE_REVIEWS, GS_PLUGIN_REFINE_FLAGS_REQUIRE_RATING}
     = Inr (Some (PluginError GS_PLUGIN_ERROR_NO_NETWORK),
            example_state\<lparr>io_log :=
              [NETWORK_SEND (HTTP_POST ''https://odrs.example/1.0/reviews/api/fetch''
                               (fetch_request offline_env example_state rated_app))]\<rparr>,
            rated_app)"
  by (simp add: refine_app_def gs_plugin_odrs_refine_reviews_def gs_plugin_odrs_fetch_for_app_def
      gs_plugin_odrs_parse_success_def server_disabled_def server_uri_def printf_s_def do_io_def
      ODRS_REVIEW_CACHE_AGE_MAX_def SOUP_STATUS_OK_def
      rated_app_def example_app_def gs_app_new_def example_state_def offline_env_def Let_def)

text \<open>
  C2 fails on the code. The application \<open>a\<close> has a review and no review ratings; the
  snapshot holds ratings for \<open>a\<close>. With the flags REQUIRE_REVIEWS and REQUIRE_RATING,
  \<^verbatim>\<open>refine_app\<close> returns TRUE from inside the reviews block and the application is left
  without review ratings. With REQUIRE_RATING alone the same application gets them.
\<close>

theorem refine_app_reviews_return_skips_ratings:
  "app_reviews reviewed_app \<noteq> [] \<and> app_review_ratings reviewed_app = None \<and>
   refine_app offline_env example_state reviewed_app
       {GS_PLUGIN_REFINE_FLAGS_REQUIRE_REVIEWS, GS_PLUGIN_REFINE_FLAGS_REQUIRE_RATING}
     = Inr (None, example_state, reviewed_app) \<and>
   refine_app offline_env example_state reviewed_app {GS_PLUGIN_REFINE_FLAGS_REQUIRE_RATING}
     = Inr (None, example_state,
            reviewed_app\<lparr>app_review_ratings := Some [0, 1, 2, 3, 4, 5], app_rating := 60\<rparr>)"
proof -
  have a: "app_reviews reviewed_app \<noteq> []" "app_review_ratings reviewed_app = None"
    "app_kind reviewed_app \<noteq> AS_COMPONENT_KIND_ADDON" "app_id reviewed_app = Some ''a''"
    "app_provided reviewed_app = []"
    by (simp_all add: reviewed_app_def example_app_def gs_app_new_def)
  have s: "\<not> server_disabled example_state"
    "ratings example_state =
       Some \<lparr>data = [\<lparr>rating_app_id = Some ''a'', n_star_ratings = [0, 1, 2, 3, 4, 5]\<rparr>],
             len = 1, elt_size = 32\<rparr>"
    by (simp_all add: server_disabled_def example_state_def)
  have both: "refine_app offline_env example_state reviewed_app
       {GS_PLUGIN_REFINE_FLAGS_REQUIRE_REVIEWS, GS_PLUGIN_REFINE_FLAGS_REQUIRE_RATING}
     = Inr (None, example_state, reviewed_app)"
    using a by (simp add: refine_app_def)
  have search: "g_array_binary_search
      (Some \<lparr>data = [\<lparr>rating_app_id = Some ''a'', n_star_ratings = [0, 1, 2, 3, 4, 5]\<rparr>],
             len = 1, elt_size = 32\<rparr>)
      \<lparr>rating_app_id = Some ''a'', n_star_ratings = [0, 0, 0, 0, 0, 0]\<rparr> rating_compare
      = Inr (True, Some 0)"
    by (simp add: g_array_binary_search_def element_at_offset_def rating_compare_def Let_def)
  have acc: "accumulate_ratings
      \<lparr>data = [\<lparr>rating_app_id = Some ''a'', n_star_ratings = [0, 1, 2, 3, 4, 5]\<rparr>],
             len = 1, elt_size = 32\<rparr>
      [Some ''a''] [0, 0, 0, 0, 0, 0] 0 = Inr ([0, 1, 2, 3, 4, 5], 1)"
    by (simp add: search Let_def upt_rec nth_Cons')
  have w: "get_wilson_rating offline_env 1 2 3 4 5 = 60"
    by (simp add: offline_env_def)
  have rat: "gs_plugin_odrs_refine_ratings offline_env example_state reviewed_app
     = Inr (None, example_state,
            reviewed_app\<lparr>app_review_ratings := Some [0, 1, 2, 3, 4, 5], app_rating := 60\<rparr>)"
    using a s acc w
    by (simp add: gs_plugin_odrs_refine_ratings_def load_ratings_if_missing_def
        gs_app_get_reviewable_ids_def Let_def)
  have only: "refine_app offline_env example_state reviewed_app
       {GS_PLUGIN_REFINE_FLAGS_REQUIRE_RATING}
     = Inr (None, example_state,
            reviewed_app\<lparr>app_review_ratings := Some [0, 1, 2, 3, 4, 5], app_rating := 60\<rparr>)"
    using a rat by (simp add: refine_app_def)
  from a(1,2) both only show ?thesis by simp
qed

text \<open>
  C4 fails on the code. \<^verbatim>\<open>ODRS_REVIEW_CACHE_AGE_MAX\<close> is 237000 seconds, not the 604800
  seconds of the week its comment names. The cache file of the application \<open>c\<close> is 300000
  seconds old, less than a week: the fetch does not read it and sends the request to the
  server instead.
\<close>

theorem fetch_for_app_cache_age_under_a_week:
  "get_cache_filename offline_env ''c.json'' = Inr ''/cache/odrs/c.json'' \<and>
   get_file_age offline_env ''/cache/odrs/c.json'' = 300000 \<and>
   (300000 :: guint) < 604800 \<and>
   ODRS_REVIEW_CACHE_AGE_MAX = 237000 \<and>
   gs_plugin_odrs_fetch_for_app offline_env example_state (example_app ''c'')
     = (Inl (PluginError GS_PLUGIN_ERROR_NO_NETWORK),
        example_state\<lparr>io_log :=
          [NETWORK_SEND (HTTP_POST ''https://odrs.example/1.0/reviews/api/fetch''
                           (fetch_request offline_env example_state (example_app ''c'')))]\<rparr>)"
  by (simp add: gs_plugin_odrs_fetch_for_app_def gs_plugin_odrs_parse_success_def
      server_disabled_def server_uri_def printf_s_def do_io_def
      ODRS_REVIEW_CACHE_AGE_MAX_def SOUP_STATUS_OK_def
      example_app_def gs_app_new_def example_state_def offline_env_def Let_def)







subsection \<open>The moderation loop\<close>

lemma dummy_key:
  "identity_key (gs_plugin_create_app_dummy a) =
     (AS_COMPONENT_SCOPE_UNKNOWN, AS_BUNDLE_KIND_UNKNOWN, None, Some a, None)"
  by (simp add: identity_key_def gs_plugin_create_app_dummy_def gs_app_new_def)

lemma dummy_fields:
  "app_id (gs_plugin_create_app_dummy a) = Some a"
  "app_reviews (gs_plugin_create_app_dummy a) = []"
  by (simp_all add: gs_plugin_create_app_dummy_def gs_app_new_def)

lemma add_review_fields:
  "identity_key (gs_app_add_review app r) = identity_key app"
  "app_id (gs_app_add_review app r) = app_id app"
  "app_reviews (gs_app_add_review app r) = app_reviews app @ [r]"
  by (simp_all add: gs_app_add_review_def identity_key_def)

lemma loop_inv_new:
  assumes wf0: "\<forall>q \<in> set list0. q < length store0 \<and>
             (\<forall>a. identity_key (store0 ! q) \<noteq> identity_key (gs_plugin_create_app_dummy a))"
    and inv: "loop_inv store0 list0 store list hash seen"
    and key: "review_app_id r = Some a"
    and new: "map_of hash a = None"
  shows "loop_inv store0 list0
           ((store @ [gs_plugin_create_app_dummy a])
              [length store := gs_app_add_review ((store @ [gs_plugin_create_app_dummy a]) ! length store) r])
           (gs_app_list_add (store @ [gs_plugin_create_app_dummy a]) list (length store))
           ((a, length store) # hash) (seen @ [r])"
proof -
  let ?d = "gs_plugin_create_app_dummy a"
  let ?n = "length store"
  let ?store2 = "store @ [gs_app_add_review ?d r]"
  from inv have n0: "length store0 \<le> ?n" and tk: "take (length store0) store = store0"
    and l: "list = list0 @ rev (map snd hash)"
    and d1: "distinct (map fst hash)" and d2: "distinct (map snd hash)"
    and dom: "fst ` set hash = {a. \<exists>r \<in> set seen. review_app_id r = Some a}"
    and ent: "\<forall>(b, p) \<in> set hash.
        length store0 \<le> p \<and> p < ?n \<and> app_id (store ! p) = Some b \<and>
        identity_key (store ! p) = identity_key (gs_plugin_create_app_dummy b) \<and>
        app_reviews (store ! p) = filter (\<lambda>r. review_app_id r = Some b) seen"
    by (simp_all add: loop_inv_def)
  from new have notin: "a \<notin> fst ` set hash" by (simp add: map_of_eq_None_iff)
  have s2: "(store @ [?d])[?n := gs_app_add_review ((store @ [?d]) ! ?n) r] = ?store2"
    by simp
  have old0: "store ! q = store0 ! q" if "q < length store0" for q
  proof -
    from that have "(take (length store0) store) ! q = store ! q" by simp
    with tk show ?thesis by simp
  qed
  have nocoll: "\<not> list_ex (\<lambda>q. identity_key ((store @ [?d]) ! q) = identity_key ((store @ [?d]) ! ?n)) list"
  proof -
    have "identity_key ((store @ [?d]) ! q) \<noteq> identity_key ?d" if q: "q \<in> set list" for q
    proof (cases "q \<in> set list0")
      case True
      with wf0 have ql: "q < length store0"
        and qk: "identity_key (store0 ! q) \<noteq> identity_key ?d" by auto
      from ql n0 have "(store @ [?d]) ! q = store ! q" by (simp add: nth_append)
      with old0 [OF ql] qk show ?thesis by simp
    next
      case False
      with q l obtain b where bq: "(b, q) \<in> set hash" by auto
      with ent have ql: "q < ?n"
        and qk: "identity_key (store ! q) = identity_key (gs_plugin_create_app_dummy b)" by auto
      from bq notin have "b \<noteq> a" by force
      with qk have "identity_key (store ! q) \<noteq> identity_key ?d" by (simp add: dummy_key)
      with ql show ?thesis by (simp add: nth_append)
    qed
    then show ?thesis by (auto simp: list_ex_iff)
  qed
  then have l2: "gs_app_list_add (store @ [?d]) list ?n = list0 @ rev (map snd ((a, ?n) # hash))"
    using l by (simp add: gs_app_list_add_def)
  have fresh_ptr: "?n \<notin> snd ` set hash"
  proof
    assume "?n \<in> snd ` set hash"
    then obtain b where "(b, ?n) \<in> set hash" by auto
    with ent have "?n < ?n" by auto
    then show False by simp
  qed
  have seen_a: "filter (\<lambda>r. review_app_id r = Some a) seen = []"
  proof -
    from notin dom have "\<forall>r \<in> set seen. review_app_id r \<noteq> Some a" by auto
    then show ?thesis by (simp add: filter_empty_conv)
  qed
  have ent2: "\<forall>(b, p) \<in> set ((a, ?n) # hash).
        length store0 \<le> p \<and> p < length ?store2 \<and> app_id (?store2 ! p) = Some b \<and>
        identity_key (?store2 ! p) = identity_key (gs_plugin_create_app_dummy b) \<and>
        app_reviews (?store2 ! p) = filter (\<lambda>r. review_app_id r = Some b) (seen @ [r])"
  proof (intro ballI, clarify)
    fix b p assume bp: "(b, p) \<in> set ((a, ?n) # hash)"
    show "length store0 \<le> p \<and> p < length ?store2 \<and> app_id (?store2 ! p) = Some b \<and>
        identity_key (?store2 ! p) = identity_key (gs_plugin_create_app_dummy b) \<and>
        app_reviews (?store2 ! p) = filter (\<lambda>r. review_app_id r = Some b) (seen @ [r])"
    proof (cases "(b, p) = (a, ?n)")
      case True
      with n0 key seen_a show ?thesis
        by (simp add: add_review_fields dummy_fields)
    next
      case False
      with bp have h: "(b, p) \<in> set hash" by auto
      with ent have e: "length store0 \<le> p" "p < ?n" "app_id (store ! p) = Some b"
        "identity_key (store ! p) = identity_key (gs_plugin_create_app_dummy b)"
        "app_reviews (store ! p) = filter (\<lambda>r. review_app_id r = Some b) seen" by auto
      from h notin have "b \<noteq> a" by force
      with key e show ?thesis by (simp add: nth_append)
    qed
  qed
  have dom2: "fst ` set ((a, ?n) # hash) = {b. \<exists>r \<in> set (seen @ [r]). review_app_id r = Some b}"
    using dom key by auto
  have "loop_inv store0 list0 ?store2 (gs_app_list_add (store @ [?d]) list ?n)
          ((a, ?n) # hash) (seen @ [r])"
    unfolding loop_inv_def
    using n0 tk l2 d1 d2 notin fresh_ptr dom2 ent2 by (intro conjI) simp_all
  with s2 show ?thesis by simp
qed

lemma loop_inv_old:
  assumes inv: "loop_inv store0 list0 store list hash seen"
    and key: "review_app_id r = Some a"
    and old: "map_of hash a = Some p"
  shows "loop_inv store0 list0 (store[p := gs_app_add_review (store ! p) r]) list hash (seen @ [r])"
proof -
  let ?store2 = "store[p := gs_app_add_review (store ! p) r]"
  from inv have n0: "length store0 \<le> length store" and tk: "take (length store0) store = store0"
    and l: "list = list0 @ rev (map snd hash)"
    and d1: "distinct (map fst hash)" and d2: "distinct (map snd hash)"
    and dom: "fst ` set hash = {a. \<exists>r \<in> set seen. review_app_id r = Some a}"
    and ent: "\<forall>(b, q) \<in> set hash.
        length store0 \<le> q \<and> q < length store \<and> app_id (store ! q) = Some b \<and>
        identity_key (store ! q) = identity_key (gs_plugin_create_app_dummy b) \<and>
        app_reviews (store ! q) = filter (\<lambda>r. review_app_id r = Some b) seen"
    by (simp_all add: loop_inv_def)
  from old have ap: "(a, p) \<in> set hash" by (rule map_of_SomeD)
  with ent have pa: "length store0 \<le> p" "p < length store" by auto
  have tk2: "take (length store0) ?store2 = store0"
    using pa tk by simp
  have ent2: "\<forall>(b, q) \<in> set hash.
        length store0 \<le> q \<and> q < length ?store2 \<and> app_id (?store2 ! q) = Some b \<and>
        identity_key (?store2 ! q) = identity_key (gs_plugin_create_app_dummy b) \<and>
        app_reviews (?store2 ! q) = filter (\<lambda>r. review_app_id r = Some b) (seen @ [r])"
  proof (intro ballI, clarify)
    fix b q assume bq: "(b, q) \<in> set hash"
    with ent have e: "length store0 \<le> q" "q < length store" "app_id (store ! q) = Some b"
      "identity_key (store ! q) = identity_key (gs_plugin_create_app_dummy b)"
      "app_reviews (store ! q) = filter (\<lambda>r. review_app_id r = Some b) seen" by auto
    show "length store0 \<le> q \<and> q < length ?store2 \<and> app_id (?store2 ! q) = Some b \<and>
        identity_key (?store2 ! q) = identity_key (gs_plugin_create_app_dummy b) \<and>
        app_reviews (?store2 ! q) = filter (\<lambda>r. review_app_id r = Some b) (seen @ [r])"
    proof (cases "q = p")
      case True
      from d2 ap bq True have "b = a"
        by (metis (no_types, lifting) distinct_map inj_onD snd_conv prod.collapse fst_conv)
      with True e key show ?thesis by (simp add: add_review_fields)
    next
      case False
      have "b \<noteq> a"
      proof
        assume "b = a"
        with d1 bq have "map_of hash a = Some q" by (simp add: map_of_is_SomeI)
        with old False show False by simp
      qed
      with False e key show ?thesis by simp
    qed
  qed
  have dom2: "fst ` set hash = {b. \<exists>r \<in> set (seen @ [r]). review_app_id r = Some b}"
  proof -
    from ap have "a \<in> fst ` set hash" by force
    with dom key show ?thesis by auto
  qed
  show ?thesis
    unfolding loop_inv_def
    using n0 tk2 l d1 d2 dom2 ent2 by (intro conjI) simp_all
qed

lemma fake_each_app_inv:
  assumes wf0: "\<forall>q \<in> set list0. q < length store0 \<and>
             (\<forall>a. identity_key (store0 ! q) \<noteq> identity_key (gs_plugin_create_app_dummy a))"
  shows "loop_inv store0 list0 store list hash seen \<Longrightarrow>
         fake_each_app store list hash rs = Inr (store', list') \<Longrightarrow>
         \<exists>hash'. loop_inv store0 list0 store' list' hash' (seen @ rs)"
proof (induction rs arbitrary: store list hash seen)
  case Nil
  then show ?case by auto
next
  case (Cons r rs)
  from Cons.prems(2) obtain a where key: "review_app_id r = Some a"
    by (cases "as_review_get_metadata_item r ''app_id''") (simp_all add: review_app_id_def)
  then have key': "as_review_get_metadata_item r ''app_id'' = Some a"
    by (simp add: review_app_id_def)
  show ?case
  proof (cases "map_of hash a")
    case None
    let ?d = "gs_plugin_create_app_dummy a"
    let ?store2 = "(store @ [?d])[length store := gs_app_add_review ((store @ [?d]) ! length store) r]"
    let ?list1 = "gs_app_list_add (store @ [?d]) list (length store)"
    from wf0 Cons.prems(1) key None
    have inv: "loop_inv store0 list0 ?store2 ?list1 ((a, length store) # hash) (seen @ [r])"
      by (rule loop_inv_new)
    from Cons.prems(2) key' None
    have "fake_each_app ?store2 ?list1 ((a, length store) # hash) rs = Inr (store', list')"
      by (simp add: Let_def)
    from Cons.IH [OF inv this] show ?thesis by simp
  next
    case (Some p)
    from Cons.prems(1) key Some
    have inv: "loop_inv store0 list0 (store[p := gs_app_add_review (store ! p) r]) list hash (seen @ [r])"
      by (rule loop_inv_old)
    from Cons.prems(2) key' Some
    have "fake_each_app (store[p := gs_app_add_review (store ! p) r]) list hash rs = Inr (store', list')"
      by simp
    from Cons.IH [OF inv this] show ?thesis by simp
  qed
qed

lemma fake_each_app_keys:
  "fake_each_app store list hash rs = Inr (store', list') \<Longrightarrow>
   \<forall>r \<in> set rs. review_app_id r \<noteq> None"
proof (induction rs arbitrary: store list hash)
  case Nil
  then show ?case by simp
next
  case (Cons r rs)
  from Cons.prems obtain a where key: "as_review_get_metadata_item r ''app_id'' = Some a"
    by (cases "as_review_get_metadata_item r ''app_id''") simp_all
  from Cons.prems key obtain store1 list1 hash1 where
    "fake_each_app store1 list1 hash1 rs = Inr (store', list')"
    by (cases "map_of hash a") (auto simp: Let_def)
  then have "\<forall>r \<in> set rs. review_app_id r \<noteq> None" by (rule Cons.IH)
  with key show ?case by (simp add: review_app_id_def)
qed

text \<open>
  C5, as amended. After a successful \<^verbatim>\<open>gs_plugin_add_unvoted_reviews\<close> on a list whose
  entries are objects of the store and none of whose entries has the identity key of a
  placeholder (an application with an id but no scope, bundle kind, origin or branch, which
  the list insertion takes for the same application as the placeholder of that id), the list
  is the old list followed by the entries added; the objects that existed before are
  untouched; the entries added have pairwise different ids; their ids are exactly the
  application ids of the fetched reviews; and each entry holds exactly the fetched reviews
  that carry its id, in their order.
\<close>

theorem unvoted_reviews_one_entry_per_app_id:
  assumes run: "gs_plugin_add_unvoted_reviews env st store list = Inr (None, st', store', list')"
    and wf0: "\<forall>q \<in> set list. q < length store \<and>
             (\<forall>a. identity_key (store ! q) \<noteq> identity_key (gs_plugin_create_app_dummy a))"
  shows "\<exists>reviews added.
           gs_plugin_odrs_parse_reviews env
             (snd (soup_session_send_message env
                (HTTP_GET (server_uri st @ ''/moderate/'' @ printf_s (user_hash st) @ ''/'' @
                           plugin_locale env)))) = Inr reviews \<and>
           list' = list @ added \<and>
           take (length store) store' = store \<and>
           distinct (map (\<lambda>p. app_id (store' ! p)) added) \<and>
           (\<lambda>p. app_id (store' ! p)) ` set added = review_app_id ` set reviews \<and>
           (\<forall>p \<in> set added. p < length store' \<and>
              app_reviews (store' ! p) =
                filter (\<lambda>r. review_app_id r = app_id (store' ! p)) reviews)"
proof -
  let ?msg = "HTTP_GET (server_uri st @ ''/moderate/'' @ printf_s (user_hash st) @ ''/'' @
                        plugin_locale env)"
  let ?body = "snd (soup_session_send_message env ?msg)"
  from run obtain reviews where
    parsed: "gs_plugin_odrs_parse_reviews env ?body = Inr reviews"
    and loop: "fake_each_app store list [] reviews = Inr (store', list')"
    by (auto simp: gs_plugin_add_unvoted_reviews_def Let_def
             split: if_splits prod.splits option.splits sum.splits)
  have init: "loop_inv store list store list [] []"
    by (simp add: loop_inv_def)
  from fake_each_app_inv [OF wf0 init loop] obtain hash where
    inv: "loop_inv store list store' list' hash reviews" by auto
  from loop have keys: "\<forall>r \<in> set reviews. review_app_id r \<noteq> None"
    by (rule fake_each_app_keys)
  let ?added = "rev (map snd hash)"
  from inv have l: "list' = list @ ?added" and tk: "take (length store) store' = store"
    and d1: "distinct (map fst hash)"
    and dom: "fst ` set hash = {a. \<exists>r \<in> set reviews. review_app_id r = Some a}"
    and ent: "\<forall>(a, p) \<in> set hash.
        length store \<le> p \<and> p < length store' \<and> app_id (store' ! p) = Some a \<and>
        identity_key (store' ! p) = identity_key (gs_plugin_create_app_dummy a) \<and>
        app_reviews (store' ! p) = filter (\<lambda>r. review_app_id r = Some a) reviews"
    by (simp_all add: loop_inv_def)
  have ids: "map (\<lambda>p. app_id (store' ! p)) (map snd hash) = map (\<lambda>e. Some (fst e)) hash"
    using ent by (auto simp: case_prod_beta)
  have dist: "distinct (map (\<lambda>p. app_id (store' ! p)) ?added)"
  proof -
    have "inj_on Some (set (map fst hash))" by (simp add: inj_on_def)
    with d1 have "distinct (map Some (map fst hash))" by (simp only: distinct_map)
    then have "distinct (map (\<lambda>e. Some (fst e)) hash)" by (simp add: comp_def)
    then have "distinct (map (\<lambda>p. app_id (store' ! p)) (map snd hash))" by (subst ids)
    then show ?thesis by (simp add: rev_map [symmetric])
  qed
  have img: "(\<lambda>p. app_id (store' ! p)) ` set ?added = review_app_id ` set reviews"
  proof -
    have "(\<lambda>p. app_id (store' ! p)) ` set ?added = set (map (\<lambda>p. app_id (store' ! p)) (map snd hash))"
      by (simp add: image_image)
    also have "\<dots> = set (map (\<lambda>e. Some (fst e)) hash)" by (subst ids) (rule refl)
    also have "\<dots> = Some ` fst ` set hash" by (simp add: image_image)
    also have "\<dots> = Some ` {a. \<exists>r \<in> set reviews. review_app_id r = Some a}" using dom by simp
    also have "\<dots> = review_app_id ` set reviews"
    proof (intro set_eqI iffI)
      fix x assume "x \<in> Some ` {a. \<exists>r \<in> set reviews. review_app_id r = Some a}"
      then show "x \<in> review_app_id ` set reviews" by force
    next
      fix x assume "x \<in> review_app_id ` set reviews"
      then obtain r where r: "r \<in> set reviews" "x = review_app_id r" by auto
      with keys obtain a where "review_app_id r = Some a" by auto
      with r show "x \<in> Some ` {a. \<exists>r \<in> set reviews. review_app_id r = Some a}" by auto
    qed
    finally show ?thesis .
  qed
  have each: "\<forall>p \<in> set ?added. p < length store' \<and>
      app_reviews (store' ! p) = filter (\<lambda>r. review_app_id r = app_id (store' ! p)) reviews"
  proof
    fix p assume "p \<in> set ?added"
    then obtain a where "(a, p) \<in> set hash" by auto
    with ent show "p < length store' \<and>
      app_reviews (store' ! p) = filter (\<lambda>r. review_app_id r = app_id (store' ! p)) reviews"
      by auto
  qed
  from parsed l tk dist img each show ?thesis by blast
qed

lemma parse_review_json:
  "gs_plugin_odrs_parse_review_object env
     [(''user_hash'', JsonString reviewer), (''app_id'', JsonString ident), (''rating'', JsonInt 80)]
     = moderated_review reviewer ident"
  by (simp add: gs_plugin_odrs_parse_review_object_def moderated_review_def as_review_new_def
      json_object_has_member_def json_object_get_int_member_def json_object_get_string_member_def
      as_review_add_metadata_def gint_of_gint64_def Let_def)

lemma moderation_reviews:
  "gs_plugin_odrs_parse_reviews moderation_env (Some ''reviews'')
     = Inr [moderated_review ''u1'' ''a'', moderated_review ''u2'' ''b.desktop'',
            moderated_review ''u3'' ''a'']"
proof -
  have "json_load_from_data moderation_env ''reviews''
      = Inr (Some (JsonArray [review_json ''u1'' ''a'', review_json ''u2'' ''b.desktop'',
                              review_json ''u3'' ''a'']))"
    by (simp add: moderation_env_def offline_env_def)
  moreover have "review_reviewer_id (moderated_review reviewer ident) = Some reviewer"
    for reviewer ident by (simp add: moderated_review_def)
  ultimately show ?thesis
    by (simp add: gs_plugin_odrs_parse_reviews_def review_json_def parse_review_json Let_def)
qed

lemma moderated_review_app_id:
  "as_review_get_metadata_item (moderated_review reviewer ident) ''app_id'' = Some ident"
  by (simp add: as_review_get_metadata_item_def moderated_review_def)

lemma moderation_run:
  assumes loop: "fake_each_app store list []
       [moderated_review ''u1'' ''a'', moderated_review ''u2'' ''b.desktop'',
        moderated_review ''u3'' ''a''] = Inr (store', list')"
  shows "gs_plugin_add_unvoted_reviews moderation_env example_state store list
     = Inr (None,
            example_state\<lparr>io_log :=
              [NETWORK_SEND (HTTP_GET ''https://odrs.example/1.0/reviews/api/moderate/cafe/en_GB'')]\<rparr>,
            store', list')"
proof -
  have send: "soup_session_send_message moderation_env msg = (200, Some ''reviews'')" for msg
    by (simp add: moderation_env_def offline_env_def)
  have loc: "plugin_locale moderation_env = ''en_GB''"
    by (simp add: moderation_env_def offline_env_def)
  show ?thesis
    by (simp add: gs_plugin_add_unvoted_reviews_def send loc moderation_reviews loop
        server_disabled_def server_uri_def printf_s_def do_io_def SOUP_STATUS_OK_def
        example_state_def Let_def del: fake_each_app.simps)
qed

lemma packaged_key:
  "identity_key (packaged_app ident) =
     (AS_COMPONENT_SCOPE_SYSTEM, AS_BUNDLE_KIND_PACKAGE, None, Some ident, None)"
  by (simp add: identity_key_def packaged_app_def example_app_def gs_app_new_def)

lemma bare_key:
  "identity_key (bare_app ident) =
     (AS_COMPONENT_SCOPE_UNKNOWN, AS_BUNDLE_KIND_UNKNOWN, None, Some ident, None)"
  by (simp add: identity_key_def bare_app_def gs_app_new_def)

lemma moderation_loop_packaged:
  "fake_each_app [packaged_app ''a''] [0] []
     [moderated_review ''u1'' ''a'', moderated_review ''u2'' ''b.desktop'',
      moderated_review ''u3'' ''a'']
   = Inr ([packaged_app ''a'',
           gs_app_add_review
             (gs_app_add_review (gs_plugin_create_app_dummy ''a'') (moderated_review ''u1'' ''a''))
             (moderated_review ''u3'' ''a''),
           gs_app_add_review (gs_plugin_create_app_dummy ''b.desktop'')
             (moderated_review ''u2'' ''b.desktop'')],
          [0, 1, 2])"
  by (simp add: moderated_review_app_id Let_def gs_app_list_add_def add_review_fields dummy_key
      packaged_key)

lemma moderation_loop_bare:
  "fake_each_app [bare_app ''a''] [0] []
     [moderated_review ''u1'' ''a'', moderated_review ''u2'' ''b.desktop'',
      moderated_review ''u3'' ''a'']
   = Inr ([bare_app ''a'',
           gs_app_add_review
             (gs_app_add_review (gs_plugin_create_app_dummy ''a'') (moderated_review ''u1'' ''a''))
             (moderated_review ''u3'' ''a''),
           gs_app_add_review (gs_plugin_create_app_dummy ''b.desktop'')
             (moderated_review ''u2'' ''b.desktop'')],
          [0, 2])"
  by (simp add: moderated_review_app_id Let_def gs_app_list_add_def add_review_fields dummy_key
      bare_key)

theorem unvoted_reviews_one_entry_per_app_id_witness:
  "gs_plugin_add_unvoted_reviews moderation_env example_state [packaged_app ''a''] [0]
     = Inr (None,
            example_state\<lparr>io_log :=
              [NETWORK_SEND (HTTP_GET ''https://odrs.example/1.0/reviews/api/moderate/cafe/en_GB'')]\<rparr>,
            [packaged_app ''a'',
             gs_app_add_review
               (gs_app_add_review (gs_plugin_create_app_dummy ''a'') (moderated_review ''u1'' ''a''))
               (moderated_review ''u3'' ''a''),
             gs_app_add_review (gs_plugin_create_app_dummy ''b.desktop'')
               (moderated_review ''u2'' ''b.desktop'')],
            [0, 1, 2]) \<and>
   identity_key (packaged_app ''a'') \<noteq> identity_key (gs_plugin_create_app_dummy ''a'') \<and>
   distinct (map (\<lambda>p. app_id
       ([packaged_app ''a'',
         gs_app_add_review
           (gs_app_add_review (gs_plugin_create_app_dummy ''a'') (moderated_review ''u1'' ''a''))
           (moderated_review ''u3'' ''a''),
         gs_app_add_review (gs_plugin_create_app_dummy ''b.desktop'')
           (moderated_review ''u2'' ''b.desktop'')] ! p)) [1, 2])"
proof -
  let ?st1 = "example_state\<lparr>io_log :=
      [NETWORK_SEND (HTTP_GET ''https://odrs.example/1.0/reviews/api/moderate/cafe/en_GB'')]\<rparr>"
  let ?store = "[packaged_app ''a'',
             gs_app_add_review
               (gs_app_add_review (gs_plugin_create_app_dummy ''a'') (moderated_review ''u1'' ''a''))
               (moderated_review ''u3'' ''a''),
             gs_app_add_review (gs_plugin_create_app_dummy ''b.desktop'')
               (moderated_review ''u2'' ''b.desktop'')]"
  have run: "gs_plugin_add_unvoted_reviews moderation_env example_state [packaged_app ''a''] [0]
      = Inr (None, ?st1, ?store, [0, 1, 2])"
    using moderation_loop_packaged by (rule moderation_run)
  have key: "identity_key (packaged_app ''a'') \<noteq> identity_key (gs_plugin_create_app_dummy a)" for a
    by (simp add: packaged_key dummy_key)
  then have wf0: "\<forall>q \<in> set [0 :: app_ptr]. q < length [packaged_app ''a''] \<and>
      (\<forall>a. identity_key ([packaged_app ''a''] ! q) \<noteq> identity_key (gs_plugin_create_app_dummy a))"
    by simp
  from unvoted_reviews_one_entry_per_app_id [OF run wf0]
  obtain added where "[0, 1, 2] = [0] @ added"
    and "distinct (map (\<lambda>p. app_id (?store ! p)) added)"
    by blast
  then have "distinct (map (\<lambda>p. app_id (?store ! p)) [1, 2])" by simp
  with run key show ?thesis by (intro conjI)
qed

text \<open>
  The claim C5 as stated, for every list, fails on a list that already holds an application
  with the identity key of a placeholder. The list holds the bare application \<open>a\<close> at address
  0; the three reviews waiting for moderation are for \<open>a\<close>, \<open>b.desktop\<close> and \<open>a\<close>. The
  placeholder made for \<open>a\<close> at address 1 has the identity key of the entry at address 0, so
  the list insertion drops it: the list that comes back is \<open>[0, 2]\<close>, in which the only
  entry with the id \<open>a\<close> is the old one, without a review, and the two reviews for \<open>a\<close> are
  on the object at address 1, which no entry of the list refers to.
\<close>

theorem unvoted_reviews_one_entry_per_app_id_counterexample:
  "gs_plugin_add_unvoted_reviews moderation_env example_state [bare_app ''a''] [0]
     = Inr (None,
            example_state\<lparr>io_log :=
              [NETWORK_SEND (HTTP_GET ''https://odrs.example/1.0/reviews/api/moderate/cafe/en_GB'')]\<rparr>,
            [bare_app ''a'',
             gs_app_add_review
               (gs_app_add_review (gs_plugin_create_app_dummy ''a'') (moderated_review ''u1'' ''a''))
               (moderated_review ''u3'' ''a''),
             gs_app_add_review (gs_plugin_create_app_dummy ''b.desktop'')
               (moderated_review ''u2'' ''b.desktop'')],
            [0, 2]) \<and>
   gs_plugin_odrs_parse_reviews moderation_env (Some ''reviews'')
     = Inr [moderated_review ''u1'' ''a'', moderated_review ''u2'' ''b.desktop'',
            moderated_review ''u3'' ''a''] \<and>
   review_app_id (moderated_review ''u1'' ''a'') = Some ''a'' \<and>
   review_app_id (moderated_review ''u3'' ''a'') = Some ''a'' \<and>
   app_id (bare_app ''a'') = Some ''a'' \<and>
   app_reviews (bare_app ''a'') = [] \<and>
   app_id (gs_app_add_review (gs_plugin_create_app_dummy ''b.desktop'')
             (moderated_review ''u2'' ''b.desktop'')) = Some ''b.desktop'' \<and>
   app_reviews
     (gs_app_add_review
        (gs_app_add_review (gs_plugin_create_app_dummy ''a'') (moderated_review ''u1'' ''a''))
        (moderated_review ''u3'' ''a''))
     = [moderated_review ''u1'' ''a'', moderated_review ''u3'' ''a''] \<and>
   (1 :: app_ptr) \<notin> set [0, 2]"
proof -
  have run: "gs_plugin_add_unvoted_reviews moderation_env example_state [bare_app ''a''] [0]
      = Inr (None,
            example_state\<lparr>io_log :=
              [NETWORK_SEND (HTTP_GET ''https://odrs.example/1.0/reviews/api/moderate/cafe/en_GB'')]\<rparr>,
            [bare_app ''a'',
             gs_app_add_review
               (gs_app_add_review (gs_plugin_create_app_dummy ''a'') (moderated_review ''u1'' ''a''))
               (moderated_review ''u3'' ''a''),
             gs_app_add_review (gs_plugin_create_app_dummy ''b.desktop'')
               (moderated_review ''u2'' ''b.desktop'')],
            [0, 2])"
    using moderation_loop_bare by (rule moderation_run)
  have ids: "review_app_id (moderated_review reviewer ident) = Some ident" for reviewer ident
    by (simp add: review_app_id_def moderated_review_app_id)
  have bare: "app_id (bare_app ''a'') = Some ''a''" "app_reviews (bare_app ''a'') = []"
    by (simp_all add: bare_app_def gs_app_new_def)
  from run moderation_reviews ids bare show ?thesis
    by (simp add: add_review_fields dummy_fields)
qed


section \<open>Facts about the firmware plugin\<close>

lemma plugin_domain_iff: "error_domain e = GS_PLUGIN_ERROR \<longleftrightarrow> (\<exists>c. e = PluginError c)"
  by (cases e) simp_all

lemma error_convert_is_set: "gs_plugin_fwupd_error_convert env (Some e) \<noteq> None"
  by (simp add: gs_plugin_fwupd_error_convert_def split: option.splits GError.splits)

lemma set_state_keeps:
  "app_device_id (gs_app_set_state app s) = app_device_id app"
  "app_metadata (gs_app_set_state app s) = app_metadata app"
  "gs_app_get_metadata_item (gs_app_set_state app s) key = gs_app_get_metadata_item app key"
  by (simp_all add: gs_app_set_state_def gs_app_get_metadata_item_def)

text \<open>
  C6. For the plugin named fwupd: on an application managed by anything else, install and
  remove return success and leave the application and the plugin state, with its log of
  client calls, as they were. On an application managed by fwupd, a failure of the client
  operation is the failure of the call: for a remote (remove, or install of a repository)
  the call returns the error of \<^verbatim>\<open>fwupd_client_modify_remote\<close>; for firmware it returns
  the error of the download or of \<^verbatim>\<open>fwupd_client_install\<close>, converted to the plugin
  domain.
\<close>

theorem install_remove_only_for_owner:
  assumes "plugin_name env = ''fwupd''"
  shows
    "(app_management_plugin app \<noteq> Some ''fwupd'' \<longrightarrow>
        gs_plugin_app_install env st app = (None, st, app) \<and>
        gs_plugin_app_remove env st app = (None, st, app)) \<and>
     (app_management_plugin app = Some ''fwupd'' \<longrightarrow>
        (\<forall>remote_id e.
           gs_app_get_metadata_item app ''fwupd::remote-id'' = Some remote_id \<and>
           client_modify_remote env remote_id ''Enabled'' ''false'' = Some e \<longrightarrow>
           fst (gs_plugin_app_remove env st app) = Some e) \<and>
        (\<forall>remote_id e.
           app_kind app = AS_COMPONENT_KIND_REPOSITORY \<and>
           gs_app_get_metadata_item app ''fwupd::remote-id'' = Some remote_id \<and>
           client_modify_remote env remote_id ''Enabled'' ''true'' = Some e \<longrightarrow>
           fst (gs_plugin_app_install env st app) = Some e) \<and>
        (\<forall>filename e.
           app_kind app \<noteq> AS_COMPONENT_KIND_REPOSITORY \<and>
           app_local_file app = Some filename \<and>
           \<not> local_file_query_exists env filename \<and>
           (if fwupd_1_5_2 (config env)
            then client_download_file env (app_update_uri app) filename
            else plugin_download_file env (app_update_uri app) filename) = Some e \<longrightarrow>
           fst (gs_plugin_app_install env st app) =
             (if fwupd_1_5_2 (config env) then gs_plugin_fwupd_error_convert env (Some e)
              else Some e) \<and>
           fst (gs_plugin_app_install env st app) \<noteq> None) \<and>
        (\<forall>filename e.
           app_kind app \<noteq> AS_COMPONENT_KIND_REPOSITORY \<and>
           app_local_file app = Some filename \<and>
           (local_file_query_exists env filename \<or>
            (if fwupd_1_5_2 (config env)
             then client_download_file env (app_update_uri app) filename
             else plugin_download_file env (app_update_uri app) filename) = None) \<and>
           client_install env
             (case app_device_id app of None \<Rightarrow> FWUPD_DEVICE_ID_ANY | Some d \<Rightarrow> d) filename
             (if gs_app_get_metadata_item app ''fwupd::OnlyOffline'' \<noteq> None
              then {FWUPD_INSTALL_FLAG_OFFLINE} else {}) = Some e \<longrightarrow>
           fst (gs_plugin_app_install env st app) = gs_plugin_fwupd_error_convert env (Some e) \<and>
           fst (gs_plugin_app_install env st app) \<noteq> None))"
proof (intro conjI impI allI)
  assume "app_management_plugin app \<noteq> Some ''fwupd''"
  with assms show "gs_plugin_app_install env st app = (None, st, app)"
    by (simp add: gs_plugin_app_install_def g_strcmp0_eq_0)
next
  assume "app_management_plugin app \<noteq> Some ''fwupd''"
  with assms show "gs_plugin_app_remove env st app = (None, st, app)"
    by (simp add: gs_plugin_app_remove_def g_strcmp0_eq_0)
next
  fix remote_id e
  assume "app_management_plugin app = Some ''fwupd''"
    and "gs_app_get_metadata_item app ''fwupd::remote-id'' = Some remote_id \<and>
         client_modify_remote env remote_id ''Enabled'' ''false'' = Some e"
  with assms show "fst (gs_plugin_app_remove env st app) = Some e"
    by (simp add: gs_plugin_app_remove_def gs_plugin_fwupd_modify_source_def g_strcmp0_eq_0 Let_def)
next
  fix remote_id e
  assume "app_management_plugin app = Some ''fwupd''"
    and "app_kind app = AS_COMPONENT_KIND_REPOSITORY \<and>
         gs_app_get_metadata_item app ''fwupd::remote-id'' = Some remote_id \<and>
         client_modify_remote env remote_id ''Enabled'' ''true'' = Some e"
  with assms show "fst (gs_plugin_app_install env st app) = Some e"
    by (simp add: gs_plugin_app_install_def gs_plugin_fwupd_modify_source_def g_strcmp0_eq_0 Let_def)
next
  fix filename e
  assume own: "app_management_plugin app = Some ''fwupd''"
    and a: "app_kind app \<noteq> AS_COMPONENT_KIND_REPOSITORY \<and>
         app_local_file app = Some filename \<and>
         \<not> local_file_query_exists env filename \<and>
         (if fwupd_1_5_2 (config env)
          then client_download_file env (app_update_uri app) filename
          else plugin_download_file env (app_update_uri app) filename) = Some e"
  from assms own a have i: "gs_plugin_app_install env st app = gs_plugin_fwupd_install env st app"
    by (simp add: gs_plugin_app_install_def g_strcmp0_eq_0)
  from a show r: "fst (gs_plugin_app_install env st app) =
      (if fwupd_1_5_2 (config env) then gs_plugin_fwupd_error_convert env (Some e) else Some e)"
    by (simp add: i gs_plugin_fwupd_install_def Let_def split: if_splits)
  then show "fst (gs_plugin_app_install env st app) \<noteq> None"
    using error_convert_is_set [of env e] by auto
next
  fix filename e
  assume own: "app_management_plugin app = Some ''fwupd''"
    and a: "app_kind app \<noteq> AS_COMPONENT_KIND_REPOSITORY \<and>
         app_local_file app = Some filename \<and>
         (local_file_query_exists env filename \<or>
          (if fwupd_1_5_2 (config env)
           then client_download_file env (app_update_uri app) filename
           else plugin_download_file env (app_update_uri app) filename) = None) \<and>
         client_install env
           (case app_device_id app of None \<Rightarrow> FWUPD_DEVICE_ID_ANY | Some d \<Rightarrow> d) filename
           (if gs_app_get_metadata_item app ''fwupd::OnlyOffline'' \<noteq> None
            then {FWUPD_INSTALL_FLAG_OFFLINE} else {}) = Some e"
  from assms own a have i: "gs_plugin_app_install env st app = gs_plugin_fwupd_install env st app"
    by (simp add: gs_plugin_app_install_def g_strcmp0_eq_0)
  from a show r: "fst (gs_plugin_app_install env st app) = gs_plugin_fwupd_error_convert env (Some e)"
    by (auto simp: i gs_plugin_fwupd_install_def set_state_keeps Let_def split: if_splits)
  then show "fst (gs_plugin_app_install env st app) \<noteq> None"
    using error_convert_is_set [of env e] by auto
qed

theorem install_remove_only_for_owner_witness:
  "plugin_name failing_fwupd_env = ''fwupd'' \<and>
   gs_plugin_app_install failing_fwupd_env idle_fwupd_state (example_app ''a'')
     = (None, idle_fwupd_state, example_app ''a'') \<and>
   gs_plugin_app_remove failing_fwupd_env idle_fwupd_state (example_app ''a'')
     = (None, idle_fwupd_state, example_app ''a'') \<and>
   fst (gs_plugin_app_remove failing_fwupd_env idle_fwupd_state remote_app)
     = Some (FwupdClientError FWUPD_ERROR_AUTH_FAILED) \<and>
   fst (gs_plugin_app_install failing_fwupd_env idle_fwupd_state
          (firmware_app ''/cache/fwupd/present.cab''))
     = Some (PluginError GS_PLUGIN_ERROR_AC_POWER_REQUIRED)"
proof -
  have name: "plugin_name failing_fwupd_env = ''fwupd''"
    by (simp add: failing_fwupd_env_def)
  have other: "app_management_plugin (example_app ''a'') \<noteq> Some ''fwupd''"
    by (simp add: example_app_def gs_app_new_def)
  from install_remove_only_for_owner [OF name, of "example_app ''a''" idle_fwupd_state] other
  have one: "gs_plugin_app_install failing_fwupd_env idle_fwupd_state (example_app ''a'')
       = (None, idle_fwupd_state, example_app ''a'') \<and>
     gs_plugin_app_remove failing_fwupd_env idle_fwupd_state (example_app ''a'')
       = (None, idle_fwupd_state, example_app ''a'')"
    by blast
  have remote: "app_management_plugin remote_app = Some ''fwupd''"
    "gs_app_get_metadata_item remote_app ''fwupd::remote-id'' = Some ''lvfs'' \<and>
     client_modify_remote failing_fwupd_env ''lvfs'' ''Enabled'' ''false''
       = Some (FwupdClientError FWUPD_ERROR_AUTH_FAILED)"
    by (simp_all add: remote_app_def gs_app_new_def gs_app_get_metadata_item_def
        failing_fwupd_env_def)
  from install_remove_only_for_owner [OF name, of remote_app idle_fwupd_state] remote
  have two: "fst (gs_plugin_app_remove failing_fwupd_env idle_fwupd_state remote_app)
      = Some (FwupdClientError FWUPD_ERROR_AUTH_FAILED)"
    by blast
  let ?fw = "firmware_app ''/cache/fwupd/present.cab''"
  have fw: "app_management_plugin ?fw = Some ''fwupd''"
    "app_kind ?fw \<noteq> AS_COMPONENT_KIND_REPOSITORY \<and>
     app_local_file ?fw = Some ''/cache/fwupd/present.cab'' \<and>
     (local_file_query_exists failing_fwupd_env ''/cache/fwupd/present.cab'' \<or>
      (if fwupd_1_5_2 (config failing_fwupd_env)
       then client_download_file failing_fwupd_env (app_update_uri ?fw) ''/cache/fwupd/present.cab''
       else plugin_download_file failing_fwupd_env (app_update_uri ?fw) ''/cache/fwupd/present.cab'')
        = None) \<and>
     client_install failing_fwupd_env
       (case app_device_id ?fw of None \<Rightarrow> FWUPD_DEVICE_ID_ANY | Some d \<Rightarrow> d)
       ''/cache/fwupd/present.cab''
       (if gs_app_get_metadata_item ?fw ''fwupd::OnlyOffline'' \<noteq> None
        then {FWUPD_INSTALL_FLAG_OFFLINE} else {})
       = Some (FwupdClientError FWUPD_ERROR_AC_POWER_REQUIRED)"
    by (simp_all add: firmware_app_def gs_app_new_def failing_fwupd_env_def)
  from install_remove_only_for_owner [OF name, of ?fw idle_fwupd_state] fw
  have "fst (gs_plugin_app_install failing_fwupd_env idle_fwupd_state ?fw)
      = gs_plugin_fwupd_error_convert failing_fwupd_env
          (Some (FwupdClientError FWUPD_ERROR_AC_POWER_REQUIRED))"
    by blast
  then have three: "fst (gs_plugin_app_install failing_fwupd_env idle_fwupd_state ?fw)
      = Some (PluginError GS_PLUGIN_ERROR_AC_POWER_REQUIRED)"
    by (simp add: gs_plugin_fwupd_error_convert_def failing_fwupd_env_def)
  from name one two three show ?thesis by simp
qed

text \<open>
  C9 fails on the code. The firmware file of the application is not in the cache, so the
  install sets the state to INSTALLING and downloads it; the download fails, and the call
  returns the error with the state still INSTALLING, not the UPDATABLE_LIVE it had. The
  failure of \<^verbatim>\<open>fwupd_client_install\<close>, a few lines below, does recover the state: with
  the file present and the installation failing, the application comes back unchanged.
\<close>

theorem install_download_failure_keeps_installing:
  "app_state (firmware_app ''/cache/fwupd/missing.cab'') = GS_APP_STATE_UPDATABLE_LIVE \<and>
   gs_plugin_app_install failing_fwupd_env idle_fwupd_state (firmware_app ''/cache/fwupd/missing.cab'')
     = (Some (PluginError GS_PLUGIN_ERROR_FAILED),
        idle_fwupd_state\<lparr>client_log :=
          [CLIENT_DOWNLOAD_FILE (Some ''https://fw.example/firmware.cab'')
             ''/cache/fwupd/missing.cab'']\<rparr>,
        (firmware_app ''/cache/fwupd/missing.cab'')\<lparr>app_state := GS_APP_STATE_INSTALLING\<rparr>) \<and>
   gs_plugin_app_install failing_fwupd_env idle_fwupd_state (firmware_app ''/cache/fwupd/present.cab'')
     = (Some (PluginError GS_PLUGIN_ERROR_AC_POWER_REQUIRED),
        \<lparr>app_current = Some (firmware_app ''/cache/fwupd/present.cab''),
         client_log = [CLIENT_INSTALL ''*'' ''/cache/fwupd/present.cab'' {}]\<rparr>,
        firmware_app ''/cache/fwupd/present.cab'')"
  by (simp add: gs_plugin_app_install_def gs_plugin_fwupd_install_def
      gs_plugin_fwupd_error_convert_def gs_app_set_state_def gs_app_set_state_recover_def
      gs_app_get_metadata_item_def do_call_def FWUPD_DEVICE_ID_ANY_def
      firmware_app_def gs_app_new_def idle_fwupd_state_def failing_fwupd_env_def Let_def)

lemma new_app_from_device_id:
  "gs_plugin_fwupd_new_app_from_device env dev = Some app \<Longrightarrow> app_id app \<noteq> None"
  by (auto simp: gs_plugin_fwupd_new_app_from_device_def Let_def split: option.splits)

text \<open>
  C7, as amended. Provided the two generic converters, where they recognise an error, leave
  it in the plugin domain: every error that leaves \<^verbatim>\<open>gs_plugin_fwupd_error_convert\<close> is
  in the plugin domain; an error that was already there is unchanged; an error of another
  domain that the generic converters do not recognise gets one of the codes NOT_SUPPORTED,
  AUTH_INVALID, NO_SECURITY, AC_POWER_REQUIRED, BATTERY_LEVEL_TOO_LOW and FAILED. A device
  whose default release has no checksums never gives an update entity: it is rejected with
  NO_SECURITY when the application built from it is in state UPDATABLE_LIVE and has a
  version and an update version, and with NOT_SUPPORTED otherwise.
\<close>

theorem fwupd_errors_classified:
  assumes gio: "\<forall>e e'. error_convert_gio env e = Some e' \<longrightarrow> error_domain e' = GS_PLUGIN_ERROR"
    and gdbus: "\<forall>e e'. error_convert_gdbus env e = Some e' \<longrightarrow> error_domain e' = GS_PLUGIN_ERROR"
  shows
    "(\<forall>error. \<exists>c. gs_plugin_fwupd_error_convert env (Some error) = Some (PluginError c)) \<and>
     (\<forall>c. gs_plugin_fwupd_error_convert env (Some (PluginError c)) = Some (PluginError c)) \<and>
     (\<forall>error.
        error_domain error \<noteq> GS_PLUGIN_ERROR \<and>
        error_convert_gio env error = None \<and> error_convert_gdbus env error = None \<longrightarrow>
        (\<exists>c \<in> {GS_PLUGIN_ERROR_NOT_SUPPORTED, GS_PLUGIN_ERROR_AUTH_INVALID,
                 GS_PLUGIN_ERROR_NO_SECURITY, GS_PLUGIN_ERROR_AC_POWER_REQUIRED,
                 GS_PLUGIN_ERROR_BATTERY_LEVEL_TOO_LOW, GS_PLUGIN_ERROR_FAILED}.
           gs_plugin_fwupd_error_convert env (Some error) = Some (PluginError c))) \<and>
     (\<forall>st dev rel.
        fwupd_device_release_default dev = Some rel \<and> release_checksums rel = [] \<longrightarrow>
        (\<exists>c. fst (gs_plugin_fwupd_new_app env st dev) = Inl (PluginError c) \<and>
              (c = GS_PLUGIN_ERROR_NO_SECURITY \<or> c = GS_PLUGIN_ERROR_NOT_SUPPORTED) \<and>
              (c = GS_PLUGIN_ERROR_NO_SECURITY \<longleftrightarrow>
                 (\<exists>app. gs_plugin_fwupd_new_app_from_device env dev = Some app \<and>
                        app_state app = GS_APP_STATE_UPDATABLE_LIVE \<and>
                        app_version app \<noteq> None \<and> app_update_version app \<noteq> None))))"
proof (intro conjI allI impI)
  fix error
  show "\<exists>c. gs_plugin_fwupd_error_convert env (Some error) = Some (PluginError c)"
  proof (cases "error_domain error = GS_PLUGIN_ERROR")
    case True
    then show ?thesis
      by (auto simp: gs_plugin_fwupd_error_convert_def plugin_domain_iff)
  next
    case False
    show ?thesis
    proof (cases "error_convert_gio env error")
      case (Some e')
      with gio have "error_domain e' = GS_PLUGIN_ERROR" by blast
      with False Some show ?thesis
        by (auto simp: gs_plugin_fwupd_error_convert_def plugin_domain_iff)
    next
      case None
      note g = None
      show ?thesis
      proof (cases "error_convert_gdbus env error")
        case (Some e')
        with gdbus have "error_domain e' = GS_PLUGIN_ERROR" by blast
        with False g Some show ?thesis
          by (auto simp: gs_plugin_fwupd_error_convert_def plugin_domain_iff)
      next
        case None
        with False g show ?thesis
          by (cases error) (simp_all add: gs_plugin_fwupd_error_convert_def)
      qed
    qed
  qed
next
  fix c
  show "gs_plugin_fwupd_error_convert env (Some (PluginError c)) = Some (PluginError c)"
    by (simp add: gs_plugin_fwupd_error_convert_def)
next
  fix error
  assume a: "error_domain error \<noteq> GS_PLUGIN_ERROR \<and>
        error_convert_gio env error = None \<and> error_convert_gdbus env error = None"
  show "\<exists>c \<in> {GS_PLUGIN_ERROR_NOT_SUPPORTED, GS_PLUGIN_ERROR_AUTH_INVALID,
                 GS_PLUGIN_ERROR_NO_SECURITY, GS_PLUGIN_ERROR_AC_POWER_REQUIRED,
                 GS_PLUGIN_ERROR_BATTERY_LEVEL_TOO_LOW, GS_PLUGIN_ERROR_FAILED}.
           gs_plugin_fwupd_error_convert env (Some error) = Some (PluginError c)"
  proof (cases error)
    case (PluginError c)
    with a show ?thesis by simp
  next
    case (FwupdClientError code)
    with a show ?thesis
      by (cases code) (simp_all add: gs_plugin_fwupd_error_convert_def)
  next
    case (ForeignError d c)
    with a show ?thesis by (simp add: gs_plugin_fwupd_error_convert_def)
  qed
next
  fix st and dev :: FwupdDevice and rel :: FwupdRelease
  assume a: "fwupd_device_release_default dev = Some rel \<and> release_checksums rel = []"
  show "\<exists>c. fst (gs_plugin_fwupd_new_app env st dev) = Inl (PluginError c) \<and>
              (c = GS_PLUGIN_ERROR_NO_SECURITY \<or> c = GS_PLUGIN_ERROR_NOT_SUPPORTED) \<and>
              (c = GS_PLUGIN_ERROR_NO_SECURITY \<longleftrightarrow>
                 (\<exists>app. gs_plugin_fwupd_new_app_from_device env dev = Some app \<and>
                        app_state app = GS_APP_STATE_UPDATABLE_LIVE \<and>
                        app_version app \<noteq> None \<and> app_update_version app \<noteq> None))"
  proof (cases "gs_plugin_fwupd_new_app_from_device env dev")
    case None
    then show ?thesis by (simp add: gs_plugin_fwupd_new_app_def)
  next
    case (Some app)
    then have "app_id app \<noteq> None" by (rule new_app_from_device_id)
    with Some a show ?thesis
      by (auto simp: gs_plugin_fwupd_new_app_def Let_def)
  qed
qed

theorem fwupd_errors_classified_witness:
  "gs_plugin_fwupd_error_convert failing_fwupd_env (Some (ForeignError ''g-file-error-quark'' 4))
     = Some (PluginError GS_PLUGIN_ERROR_FAILED) \<and>
   fst (gs_plugin_fwupd_new_app failing_fwupd_env idle_fwupd_state
          (example_device {FWUPD_DEVICE_FLAG_UPDATABLE, FWUPD_DEVICE_FLAG_SUPPORTED}))
     = Inl (PluginError GS_PLUGIN_ERROR_NO_SECURITY)"
proof -
  have gio: "\<forall>e e'. error_convert_gio failing_fwupd_env e = Some e' \<longrightarrow>
      error_domain e' = GS_PLUGIN_ERROR"
    by (simp add: failing_fwupd_env_def)
  have gdbus: "\<forall>e e'. error_convert_gdbus failing_fwupd_env e = Some e' \<longrightarrow>
      error_domain e' = GS_PLUGIN_ERROR"
    by (simp add: failing_fwupd_env_def)
  note inst = fwupd_errors_classified [OF gio gdbus]
  let ?dev = "example_device {FWUPD_DEVICE_FLAG_UPDATABLE, FWUPD_DEVICE_FLAG_SUPPORTED}"
  have one: "gs_plugin_fwupd_error_convert failing_fwupd_env
      (Some (ForeignError ''g-file-error-quark'' 4)) = Some (PluginError GS_PLUGIN_ERROR_FAILED)"
  proof -
    from inst obtain c where
      c: "gs_plugin_fwupd_error_convert failing_fwupd_env
            (Some (ForeignError ''g-file-error-quark'' 4)) = Some (PluginError c)"
      by blast
    then have "c = GS_PLUGIN_ERROR_FAILED"
      by (simp add: gs_plugin_fwupd_error_convert_def failing_fwupd_env_def)
    with c show ?thesis by simp
  qed
  have pre: "fwupd_device_release_default ?dev = Some unsigned_release \<and>
      release_checksums unsigned_release = []"
    by (simp add: example_device_def unsigned_release_def)
  have built: "\<exists>app. gs_plugin_fwupd_new_app_from_device failing_fwupd_env ?dev = Some app \<and>
      app_state app = GS_APP_STATE_UPDATABLE_LIVE \<and>
      app_version app \<noteq> None \<and> app_update_version app \<noteq> None"
    by (simp add: gs_plugin_fwupd_new_app_from_device_def example_device_def unsigned_release_def
        failing_fwupd_env_def gs_app_new_def Let_def)
  from inst pre obtain c where
    "fst (gs_plugin_fwupd_new_app failing_fwupd_env idle_fwupd_state ?dev) = Inl (PluginError c)"
    and "c = GS_PLUGIN_ERROR_NO_SECURITY \<longleftrightarrow>
           (\<exists>app. gs_plugin_fwupd_new_app_from_device failing_fwupd_env ?dev = Some app \<and>
                  app_state app = GS_APP_STATE_UPDATABLE_LIVE \<and>
                  app_version app \<noteq> None \<and> app_update_version app \<noteq> None)"
    by blast
  with built have two: "fst (gs_plugin_fwupd_new_app failing_fwupd_env idle_fwupd_state ?dev)
      = Inl (PluginError GS_PLUGIN_ERROR_NO_SECURITY)"
    by simp
  from one two show ?thesis by (rule conjI)
qed

text \<open>
  The claim C7 as stated fails in two places. An fwupd error that says the machine needs
  mains power is converted to AC_POWER_REQUIRED, a code outside the taxonomy of the spec.
  And a device that is not updatable is rejected with NOT_SUPPORTED, whether or not its
  default release has checksums: the test of the checksums comes after the tests of the
  state and the versions.
\<close>

theorem fwupd_errors_classified_counterexample:
  "gs_plugin_fwupd_error_convert failing_fwupd_env
       (Some (FwupdClientError FWUPD_ERROR_AC_POWER_REQUIRED))
     = Some (PluginError GS_PLUGIN_ERROR_AC_POWER_REQUIRED) \<and>
   GS_PLUGIN_ERROR_AC_POWER_REQUIRED \<notin> spec_taxonomy \<and>
   fwupd_device_release_default (example_device {FWUPD_DEVICE_FLAG_SUPPORTED})
     = Some unsigned_release \<and>
   release_checksums unsigned_release = [] \<and>
   fst (gs_plugin_fwupd_new_app failing_fwupd_env idle_fwupd_state
          (example_device {FWUPD_DEVICE_FLAG_SUPPORTED}))
     = Inl (PluginError GS_PLUGIN_ERROR_NOT_SUPPORTED)"
  by (simp add: gs_plugin_fwupd_error_convert_def spec_taxonomy_def gs_plugin_fwupd_new_app_def
      gs_plugin_fwupd_new_app_from_device_def example_device_def unsigned_release_def
      failing_fwupd_env_def gs_app_new_def Let_def)



end

